theory Spec2Isabelle
  imports Main
begin

section \<open>The XML/XSD validation script \<^verbatim>\<open>validate-prompts.py\<close>\<close>

text \<open>
  The script parses an XML file, decides where its schema comes from (the \<^verbatim>\<open>--xsd\<close>
  override, a remote URL or a local path taken from the root element), compiles the schema
  and prints a status line. Parsing, schema compilation, schema validation, HTTP and the
  file system are library calls: they are the fields of an environment record, each
  returning either a raised exception or a value. A run returns its result together with the
  ordered trace of what it did to the outside world (every line written by \<^verbatim>\<open>print\<close>
  and every file or network access). Writing to the standard output is a library call as
  well: \<^verbatim>\<open>print\<close> raises when the text cannot be encoded or the write fails. The
  environment is the same for the whole run.
\<close>

subsection \<open>Exceptions\<close>

text \<open>
  The classes of exception the library calls of the script raise. All of them derive from
  Python's \<^verbatim>\<open>Exception\<close>; interrupts of the interpreter are not modelled. \<^verbatim>\<open>HTTPError\<close>, \<^verbatim>\<open>ConnectionError\<close> and \<^verbatim>\<open>Timeout\<close> derive from
  \<^verbatim>\<open>requests.RequestException\<close>; lxml's \<^verbatim>\<open>XMLSchemaParseError\<close> (raised when a
  well-formed document is not a valid schema) does not derive from \<^verbatim>\<open>XMLSyntaxError\<close>.
\<close>

datatype exn_class =
    RequestException | HTTPError | ConnectionError | Timeout
  | XMLSyntaxError | XMLSchemaParseError | XMLSchemaValidateError
  | OSError | UnicodeEncodeError | OtherException

datatype exn = Exn exn_class string

fun exn_cls :: "exn \<Rightarrow> exn_class" where
  "exn_cls (Exn c m) = c"

text \<open>\<^verbatim>\<open>str(e)\<close>, as the f-strings of the script format an exception.\<close>

fun str_exn :: "exn \<Rightarrow> string" where
  "str_exn (Exn c m) = m"

definition isinstance_RequestException :: "exn \<Rightarrow> bool" where
  "isinstance_RequestException e =
     (exn_cls e = RequestException \<or> exn_cls e = HTTPError
      \<or> exn_cls e = ConnectionError \<or> exn_cls e = Timeout)"

definition isinstance_XMLSyntaxError :: "exn \<Rightarrow> bool" where
  "isinstance_XMLSyntaxError e = (exn_cls e = XMLSyntaxError)"

subsection \<open>Strings and paths\<close>

definition startswith :: "string \<Rightarrow> string \<Rightarrow> bool" where
  "startswith s p = (take (length p) s = p)"

definition endswith :: "string \<Rightarrow> string \<Rightarrow> bool" where
  "endswith s suf = (length suf \<le> length s \<and> drop (length s - length suf) s = suf)"

text \<open>Truthiness of an \<^verbatim>\<open>Optional[str]\<close>: \<^verbatim>\<open>None\<close> and the empty string are false.\<close>

fun truthy :: "string option \<Rightarrow> bool" where
  "truthy None = False"
| "truthy (Some s) = (s \<noteq> [])"

text \<open>
  \<^verbatim>\<open>os.path.join\<close> with two arguments and \<^verbatim>\<open>os.path.dirname\<close>, as \<^verbatim>\<open>posixpath\<close>
  defines them: a second component that starts with the separator replaces the first;
  \<^verbatim>\<open>dirname\<close> keeps what precedes the last separator and strips trailing separators
  unless the head consists of separators only.
\<close>

definition os_path_join :: "string \<Rightarrow> string \<Rightarrow> string" where
  "os_path_join a b =
     (if startswith b ''/'' then b
      else if a = [] \<or> endswith a ''/'' then a @ b
      else a @ ''/'' @ b)"

definition os_path_dirname :: "string \<Rightarrow> string" where
  "os_path_dirname p =
     (let head = rev (dropWhile (\<lambda>c. c \<noteq> CHR ''/'') (rev p))
      in if head \<noteq> [] \<and> head \<noteq> replicate (length head) (CHR ''/'')
         then rev (dropWhile (\<lambda>c. c = CHR ''/'') (rev head))
         else head)"

text \<open>The decimal numeral of a natural number, as \<^verbatim>\<open>str\<close> gives it.\<close>

definition digit_char :: "nat \<Rightarrow> char" where
  "digit_char d = ''0123456789'' ! (d mod 10)"

fun string_of_nat :: "nat \<Rightarrow> string" where
  "string_of_nat n =
     (if n < 10 then [digit_char n]
      else string_of_nat (n div 10) @ [digit_char (n mod 10)])"

declare string_of_nat.simps [simp del]

subsection \<open>Documents, schemas, responses\<close>

text \<open>
  A parsed document: the root element's tag and attributes (keys in lxml's
  \<^verbatim>\<open>{namespace}name\<close> form) and the rest of the tree. A compiled schema is built from a
  document. An entry of the schema engine's error log has a line, a column and a message.
\<close>

record xml_tree =
  root_tag :: string
  root_attrib :: "(string \<times> string) list"
  children :: string

datatype schema = XMLSchema xml_tree

record log_entry =
  line :: nat
  column :: nat
  message :: string

record response =
  status_code :: nat
  reason :: string
  url :: string
  content :: string

text \<open>\<^verbatim>\<open>root.attrib.get(key)\<close>\<close>

definition attrib_get :: "xml_tree \<Rightarrow> string \<Rightarrow> string option" where
  "attrib_get t k = map_of (root_attrib t) k"

text \<open>
  \<^verbatim>\<open>response.raise_for_status()\<close> of the requests library: an \<^verbatim>\<open>HTTPError\<close> for a
  status from 400 to 599, nothing otherwise.
\<close>

definition http_error_msg :: "response \<Rightarrow> string" where
  "http_error_msg r =
     string_of_nat (status_code r)
     @ (if status_code r < 500 then '' Client Error: '' else '' Server Error: '')
     @ reason r @ '' for url: '' @ url r"

definition raise_for_status :: "response \<Rightarrow> exn + unit" where
  "raise_for_status r =
     (if 400 \<le> status_code r \<and> status_code r < 600
      then Inl (Exn HTTPError (http_error_msg r))
      else Inr ())"

subsection \<open>The environment and the trace\<close>

text \<open>What \<^verbatim>\<open>print\<close> is given: a string, or the error log object of a schema.\<close>

datatype printed = Text string | ErrorLog "log_entry list"

record env =
  os_path_isdir :: "string \<Rightarrow> bool"
  os_path_exists :: "string \<Rightarrow> bool"
  os_listdir :: "string \<Rightarrow> exn + string list"
  etree_parse :: "string \<Rightarrow> exn + xml_tree"
  etree_XML :: "string \<Rightarrow> exn + xml_tree"
  etree_XMLSchema :: "xml_tree \<Rightarrow> exn + schema"
  XMLSchema_validate :: "schema \<Rightarrow> xml_tree \<Rightarrow> exn + (bool \<times> log_entry list)"
  requests_get :: "string \<Rightarrow> nat \<Rightarrow> exn + response"
  stdout_write :: "printed \<Rightarrow> exn + unit"
  stdout_flush :: "exn + unit"

text \<open>
  \<^verbatim>\<open>XMLSchema_validate\<close> is \<^verbatim>\<open>xsd_schema.validate(xml_tree)\<close> together with the value
  \<^verbatim>\<open>xsd_schema.error_log\<close> has after the call. \<^verbatim>\<open>stdout_write\<close> is the write that
  \<^verbatim>\<open>print\<close> makes (it raises \<^verbatim>\<open>UnicodeEncodeError\<close> for a text the stream cannot
  encode, such as a file name that is not valid UTF-8, and \<^verbatim>\<open>OSError\<close> when the write
  fails); \<^verbatim>\<open>stdout_flush\<close> is the flush of the standard output when the interpreter
  shuts down. An event \<open>Print\<close> of the trace is a text that was written.
\<close>

datatype event =
    Print printed
  | HttpGet string nat
  | ParseFile string
  | PathExists string
  | IsDir string
  | ListDir string

type_synonym 'a io = "(exn + 'a) \<times> event list"

definition io_return :: "'a \<Rightarrow> 'a io" where
  "io_return x = (Inr x, [])"

definition io_lift :: "exn + 'a \<Rightarrow> 'a io" where
  "io_lift r = (r, [])"

definition call :: "event \<Rightarrow> exn + 'a \<Rightarrow> 'a io" where
  "call ev r = (r, [ev])"

definition print :: "env \<Rightarrow> printed \<Rightarrow> unit io" where
  "print env p =
     (case stdout_write env p of
        Inl e \<Rightarrow> (Inl e, [])
      | Inr u \<Rightarrow> (Inr (), [Print p]))"

definition io_bind :: "'a io \<Rightarrow> ('a \<Rightarrow> 'b io) \<Rightarrow> 'b io" where
  "io_bind m f =
     (case m of
        (Inl e, t) \<Rightarrow> (Inl e, t)
      | (Inr x, t) \<Rightarrow> (case f x of (r, t') \<Rightarrow> (r, t @ t')))"

text \<open>
  \<^verbatim>\<open>try: body except ...\<close>: the handler gives the clause that matches the exception, or
  \<open>None\<close> when no clause does and the exception goes on to the caller.
\<close>

definition try_except :: "'a io \<Rightarrow> (exn \<Rightarrow> 'a io option) \<Rightarrow> 'a io" where
  "try_except body handler =
     (case body of
        (Inr v, t) \<Rightarrow> (Inr v, t)
      | (Inl e, t) \<Rightarrow>
          (case handler e of
             None \<Rightarrow> (Inl e, t)
           | Some h \<Rightarrow> (case h of (r, t') \<Rightarrow> (r, t @ t'))))"

fun for_each :: "'a list \<Rightarrow> ('a \<Rightarrow> unit io) \<Rightarrow> unit io" where
  "for_each [] f = io_return ()"
| "for_each (x # xs) f = io_bind (f x) (\<lambda>_. for_each xs f)"

subsection \<open>Constants of the script\<close>

definition COLOR_OK :: string where
  "COLOR_OK = CHR 0x1B # ''[92m''"

definition COLOR_ERROR :: string where
  "COLOR_ERROR = CHR 0x1B # ''[91m''"

definition COLOR_WARNING :: string where
  "COLOR_WARNING = CHR 0x1B # ''[93m''"

definition COLOR_RESET :: string where
  "COLOR_RESET = CHR 0x1B # ''[0m''"

definition xsi_ns :: string where
  "xsi_ns = ''http://www.w3.org/2001/XMLSchema-instance''"

subsection \<open>\<^verbatim>\<open>fetch_xsd\<close>\<close>

text \<open>
  Lines 14 to 34. The \<^verbatim>\<open>try\<close> block is \<open>fetch_xsd_body\<close>; the two \<^verbatim>\<open>except\<close>
  clauses, in their order, are \<open>fetch_xsd_handler\<close>. What a clause itself raises (its
  \<^verbatim>\<open>print\<close>) leaves the function. A schema object is always true in
  a condition, so the caller's \<^verbatim>\<open>if not xsd_schema\<close> tests for \<open>None\<close>.
\<close>

definition fetch_xsd_body :: "env \<Rightarrow> string \<Rightarrow> schema option io" where
  "fetch_xsd_body env xsd_url =
     io_bind (call (HttpGet xsd_url 10) (requests_get env xsd_url 10)) (\<lambda>response.
     io_bind (io_lift (raise_for_status response)) (\<lambda>_.
     io_bind (io_lift (etree_XML env (content response))) (\<lambda>xsd_tree.
     io_bind (io_lift (etree_XMLSchema env xsd_tree)) (\<lambda>xsd_schema.
     io_return (Some xsd_schema)))))"

definition fetch_xsd_handler :: "env \<Rightarrow> string \<Rightarrow> exn \<Rightarrow> schema option io option" where
  "fetch_xsd_handler env xsd_url e =
     (if isinstance_RequestException e then
        Some (io_bind (print env (Text (COLOR_ERROR @ ''[ERROR] Failed to fetch XSD from ''
                                    @ xsd_url @ '': '' @ str_exn e @ COLOR_RESET)))
                (\<lambda>_. io_return None))
      else if isinstance_XMLSyntaxError e then
        Some (io_bind (print env (Text (COLOR_ERROR @ ''[ERROR] Invalid XSD format from ''
                                    @ xsd_url @ '': '' @ str_exn e @ COLOR_RESET)))
                (\<lambda>_. io_return None))
      else None)"

definition fetch_xsd :: "env \<Rightarrow> string \<Rightarrow> schema option io" where
  "fetch_xsd env xsd_url = try_except (fetch_xsd_body env xsd_url) (fetch_xsd_handler env xsd_url)"

subsection \<open>\<^verbatim>\<open>validate_with_schema\<close>\<close>

text \<open>Lines 90 to 107.\<close>

definition validate_with_schema :: "env \<Rightarrow> xml_tree \<Rightarrow> schema \<Rightarrow> string \<Rightarrow> bool io" where
  "validate_with_schema env xml_tree xsd_schema xml_path =
     io_bind (io_lift (XMLSchema_validate env xsd_schema xml_tree)) (\<lambda>(valid, error_log).
       if valid then
         io_bind (print env (Text (COLOR_OK @ ''[OK] '' @ xml_path @ '' is valid.'' @ COLOR_RESET)))
           (\<lambda>_. io_return True)
       else
         io_bind (print env (Text (COLOR_ERROR @ ''[KO] '' @ xml_path @ '' is NOT valid.''
                               @ COLOR_RESET))) (\<lambda>_.
         io_bind (print env (ErrorLog error_log)) (\<lambda>_.
         io_return False)))"

subsection \<open>\<^verbatim>\<open>validate_xml\<close>\<close>

text \<open>
  Lines 37 to 87. \<open>validate_xml_local\<close> is lines 76 to 83, the part of the \<^verbatim>\<open>try\<close>
  block that the override branch and the local-path branch both fall into with their
  \<^verbatim>\<open>xsd_path\<close>; \<open>validate_xml_body\<close> is the whole \<^verbatim>\<open>try\<close> block and
  \<open>validate_xml_handler\<close> the clause \<^verbatim>\<open>except Exception\<close>, whose \<^verbatim>\<open>print\<close> at line
  86 is not inside any \<^verbatim>\<open>try\<close>.
\<close>

definition validate_xml_local :: "env \<Rightarrow> xml_tree \<Rightarrow> string \<Rightarrow> string \<Rightarrow> bool io" where
  "validate_xml_local env xml_tree xsd_path xml_path =
     io_bind (call (PathExists xsd_path) (Inr (os_path_exists env xsd_path))) (\<lambda>ex.
       if \<not> ex then
         io_bind (print env (Text (COLOR_ERROR @ ''[ERROR] XSD file '' @ [CHR 0x27] @ xsd_path
                               @ [CHR 0x27] @ '' not found.'' @ COLOR_RESET)))
           (\<lambda>_. io_return False)
       else
         io_bind (call (ParseFile xsd_path) (etree_parse env xsd_path)) (\<lambda>xsd_tree.
         io_bind (io_lift (etree_XMLSchema env xsd_tree)) (\<lambda>xsd_schema.
         validate_with_schema env xml_tree xsd_schema xml_path)))"

definition validate_xml_body :: "env \<Rightarrow> string \<Rightarrow> string option \<Rightarrow> bool io" where
  "validate_xml_body env xml_path xsd_override =
     io_bind (call (ParseFile xml_path) (etree_parse env xml_path)) (\<lambda>xml_tree.
       if truthy xsd_override then
         validate_xml_local env xml_tree (the xsd_override) xml_path
       else
         (let xsd_location =
                attrib_get xml_tree (''{'' @ xsi_ns @ ''}noNamespaceSchemaLocation'')
          in if \<not> truthy xsd_location then
               io_bind (print env (Text (COLOR_WARNING @ ''[WARNING] No XSD location found in ''
                                     @ xml_path @ ''. Skipping validation.'' @ COLOR_RESET)))
                 (\<lambda>_. io_return False)
             else if startswith (the xsd_location) ''http://''
                     \<or> startswith (the xsd_location) ''https://'' then
               io_bind (fetch_xsd env (the xsd_location)) (\<lambda>xsd_schema.
                 case xsd_schema of
                   None \<Rightarrow> io_return False
                 | Some s \<Rightarrow> validate_with_schema env xml_tree s xml_path)
             else
               validate_xml_local env xml_tree
                 (os_path_join (os_path_dirname xml_path) (the xsd_location)) xml_path))"

definition validate_xml_handler :: "env \<Rightarrow> string \<Rightarrow> exn \<Rightarrow> bool io option" where
  "validate_xml_handler env xml_path e =
     Some (io_bind (print env (Text (COLOR_ERROR @ ''[ERROR] Failed to validate '' @ xml_path
                                 @ '': '' @ str_exn e @ COLOR_RESET)))
             (\<lambda>_. io_return False))"

definition validate_xml :: "env \<Rightarrow> string \<Rightarrow> string option \<Rightarrow> bool io" where
  "validate_xml env xml_path xsd_override =
     try_except (validate_xml_body env xml_path xsd_override)
       (validate_xml_handler env xml_path)"

subsection \<open>\<^verbatim>\<open>validate_xmls_in_directory\<close> and \<^verbatim>\<open>main\<close>\<close>





text \<open>The standard output accepts every text.\<close>

definition stdout_ok :: "env \<Rightarrow> bool" where
  "stdout_ok env = (\<forall>p. stdout_write env p = Inr ())"

subsection \<open>Reading a trace\<close>

text \<open>The status lines of a trace are its printed strings; an access to a local file is
  an existence check or a parse.\<close>

fun is_status_line :: "event \<Rightarrow> bool" where
  "is_status_line (Print (Text s)) = True"
| "is_status_line _ = False"

fun is_print :: "event \<Rightarrow> bool" where
  "is_print (Print p) = True"
| "is_print _ = False"

fun is_http_get :: "event \<Rightarrow> bool" where
  "is_http_get (HttpGet u n) = True"
| "is_http_get _ = False"

fun is_file_access :: "event \<Rightarrow> bool" where
  "is_file_access (ParseFile p) = True"
| "is_file_access (PathExists p) = True"
| "is_file_access _ = False"

definition status_lines :: "event list \<Rightarrow> event list" where
  "status_lines t = filter is_status_line t"

subsection \<open>An example environment\<close>

text \<open>
  A small file system and network to run the script on: a directory \<^verbatim>\<open>docs\<close> with
  documents that are valid, invalid, malformed, without a schema location, with an empty
  one, with a remote one and with an absolute one; a directory that cannot be listed; and a
  handful of URLs (a 404 whose body is a schema, a timeout, a good schema, a well-formed
  document that is no schema, a malformed body, and a final 300 response carrying a
  schema). A schema accepts the documents whose content is the one it names. The directory
  \<^verbatim>\<open>raw\<close> lists a file whose name holds the byte 255, which is not valid UTF-8. In
  \<open>ex_env\<close> the standard output accepts everything; in \<open>ex_env_strict\<close> it is a strict
  UTF-8 stream that refuses a text with that byte; in \<open>ex_env_full\<close> it cannot be
  flushed.
\<close>

definition loc_key :: string where
  "loc_key = ''{'' @ xsi_ns @ ''}noNamespaceSchemaLocation''"

definition xsd_a :: xml_tree where
  "xsd_a = \<lparr>root_tag = ''schema'', root_attrib = [], children = ''name''\<rparr>"

definition xsd_other :: xml_tree where
  "xsd_other = \<lparr>root_tag = ''schema'', root_attrib = [], children = ''title''\<rparr>"

definition doc_foo :: xml_tree where
  "doc_foo = \<lparr>root_tag = ''foo'', root_attrib = [], children = []\<rparr>"

definition doc_with :: "(string \<times> string) list \<Rightarrow> string \<Rightarrow> xml_tree" where
  "doc_with attrs body = \<lparr>root_tag = ''root'', root_attrib = attrs, children = body\<rparr>"

definition missing_name :: log_entry where
  "missing_name = \<lparr>line = 1, column = 0, message = ''Missing child element(s).''\<rparr>"

definition ex_parse :: "string \<Rightarrow> exn + xml_tree" where
  "ex_parse p =
     (if p = ''docs/a.xml'' then Inr (doc_with [(loc_key, ''a.xsd'')] ''name'')
      else if p = ''docs/b.xml'' then Inr (doc_with [] ''name'')
      else if p = ''docs/c.xml'' then Inl (Exn XMLSyntaxError ''Premature end of data'')
      else if p = ''docs/e.xml'' then Inr (doc_with [(loc_key, ''a.xsd'')] [])
      else if p = ''docs/r.xml'' then Inr (doc_with [(loc_key, ''http://h/gone.xsd'')] ''name'')
      else if p = ''docs/t.xml'' then Inr (doc_with [(loc_key, ''http://h/slow.xsd'')] ''name'')
      else if p = ''docs/s.xml'' then Inr (doc_with [(loc_key, ''https://h/foo.xml'')] ''name'')
      else if p = ''docs/z.xml'' then Inr (doc_with [(loc_key, [])] ''name'')
      else if p = ''docs/abs.xml'' then Inr (doc_with [(loc_key, ''/xsd/a.xsd'')] ''name'')
      else if p = ''docs/m.xml'' then Inr (doc_with [(loc_key, ''gone.xsd'')] ''name'')
      else if p = ''docs/a.xsd'' then Inr xsd_a
      else if p = ''/xsd/a.xsd'' then Inr xsd_a
      else if p = ''other.xsd'' then Inr xsd_other
      else Inl (Exn OSError ''Error reading file''))"

definition ex_get :: "string \<Rightarrow> nat \<Rightarrow> exn + response" where
  "ex_get u timeout =
     (if u = ''http://h/gone.xsd''
        then Inr \<lparr>status_code = 404, reason = ''Not Found'', url = u,
                  content = ''<schema/>''\<rparr>
      else if u = ''http://h/slow.xsd'' then Inl (Exn Timeout ''Read timed out.'')
      else if u = ''http://h/a.xsd''
        then Inr \<lparr>status_code = 200, reason = ''OK'', url = u, content = ''<schema/>''\<rparr>
      else if u = ''https://h/foo.xml''
        then Inr \<lparr>status_code = 200, reason = ''OK'', url = u, content = ''<foo/>''\<rparr>
      else if u = ''http://h/bad.xsd''
        then Inr \<lparr>status_code = 200, reason = ''OK'', url = u, content = ''<schema''\<rparr>
      else if u = ''http://h/multi.xsd''
        then Inr \<lparr>status_code = 300, reason = ''Multiple Choices'', url = u,
                  content = ''<schema/>''\<rparr>
      else Inl (Exn ConnectionError ''Name or service not known''))"

definition ex_env :: env where
  "ex_env = \<lparr>
     os_path_isdir = (\<lambda>p. p = ''docs'' \<or> p = ''locked'' \<or> p = ''plain'' \<or> p = ''raw''),
     os_path_exists = (\<lambda>p. p = ''docs/a.xsd'' \<or> p = ''/xsd/a.xsd'' \<or> p = ''other.xsd''),
     os_listdir = (\<lambda>p.
       if p = ''docs'' then Inr [''e.xml'', ''notes.txt'', ''a.xml'', ''c.xml'', ''b.xml'']
       else if p = ''plain'' then Inr [''notes.txt'', ''a.xsd'']
       else if p = ''raw'' then Inr [CHR 0xFF # ''.xml'', ''zz.xml'']
       else Inl (Exn OSError ''Permission denied'')),
     etree_parse = ex_parse,
     etree_XML = (\<lambda>b.
       if b = ''<schema/>'' then Inr xsd_a
       else if b = ''<foo/>'' then Inr doc_foo
       else Inl (Exn XMLSyntaxError ''Document is empty or truncated'')),
     etree_XMLSchema = (\<lambda>t.
       if root_tag t = ''schema'' then Inr (XMLSchema t)
       else Inl (Exn XMLSchemaParseError ''The XML document is not a schema document.'')),
     XMLSchema_validate = (\<lambda>s t. case s of XMLSchema x \<Rightarrow>
       if children t = children x then Inr (True, []) else Inr (False, [missing_name])),
     requests_get = ex_get,
     stdout_write = (\<lambda>p. Inr ()),
     stdout_flush = Inr ()\<rparr>"

definition strict_write :: "printed \<Rightarrow> exn + unit" where
  "strict_write p =
     (case p of
        Text s \<Rightarrow>
          if CHR 0xFF \<in> set s then Inl (Exn UnicodeEncodeError ''surrogates not allowed'')
          else Inr ()
      | ErrorLog l \<Rightarrow> Inr ())"

definition ex_env_strict :: env where
  "ex_env_strict = ex_env\<lparr>stdout_write := strict_write\<rparr>"


section \<open>Properties\<close>

subsection \<open>Unfolding the functions\<close>

lemmas io_defs = io_bind_def io_return_def io_lift_def call_def print_def try_except_def

lemmas ex_defs = ex_env_def ex_parse_def ex_get_def doc_with_def xsd_a_def xsd_other_def
  doc_foo_def missing_name_def loc_key_def xsi_ns_def


lemma print_ok: "stdout_write env p = Inr () \<Longrightarrow> print env p = (Inr (), [Print p])"
  by (simp add: print_def)

lemma validate_with_schema_unfold:
  "validate_with_schema env t s p =
     (case XMLSchema_validate env s t of
        Inl e \<Rightarrow> (Inl e, [])
      | Inr (valid, log) \<Rightarrow>
          if valid
          then (case stdout_write env
                       (Text (COLOR_OK @ ''[OK] '' @ p @ '' is valid.'' @ COLOR_RESET)) of
                  Inl e \<Rightarrow> (Inl e, [])
                | Inr u \<Rightarrow>
                    (Inr True,
                     [Print (Text (COLOR_OK @ ''[OK] '' @ p @ '' is valid.'' @ COLOR_RESET))]))
          else (case stdout_write env
                       (Text (COLOR_ERROR @ ''[KO] '' @ p @ '' is NOT valid.'' @ COLOR_RESET)) of
                  Inl e \<Rightarrow> (Inl e, [])
                | Inr u \<Rightarrow>
                    (case stdout_write env (ErrorLog log) of
                       Inl e \<Rightarrow>
                         (Inl e,
                          [Print (Text (COLOR_ERROR @ ''[KO] '' @ p @ '' is NOT valid.''
                                        @ COLOR_RESET))])
                     | Inr u \<Rightarrow>
                         (Inr False,
                          [Print (Text (COLOR_ERROR @ ''[KO] '' @ p @ '' is NOT valid.''
                                        @ COLOR_RESET)),
                           Print (ErrorLog log)]))))"
  by (simp add: validate_with_schema_def io_defs split: sum.splits prod.splits)

lemma validate_xml_local_unfold:
  "validate_xml_local env t x p =
     (if \<not> os_path_exists env x
      then (case stdout_write env
                   (Text (COLOR_ERROR @ ''[ERROR] XSD file '' @ [CHR 0x27] @ x @ [CHR 0x27]
                          @ '' not found.'' @ COLOR_RESET)) of
              Inl e \<Rightarrow> (Inl e, [PathExists x])
            | Inr u \<Rightarrow>
                (Inr False,
                 [PathExists x,
                  Print (Text (COLOR_ERROR @ ''[ERROR] XSD file '' @ [CHR 0x27] @ x
                               @ [CHR 0x27] @ '' not found.'' @ COLOR_RESET))]))
      else case etree_parse env x of
             Inl e \<Rightarrow> (Inl e, [PathExists x, ParseFile x])
           | Inr xt \<Rightarrow>
               (case etree_XMLSchema env xt of
                  Inl e \<Rightarrow> (Inl e, [PathExists x, ParseFile x])
                | Inr s \<Rightarrow>
                    (fst (validate_with_schema env t s p),
                     [PathExists x, ParseFile x] @ snd (validate_with_schema env t s p))))"
  by (simp add: validate_xml_local_def io_defs split: sum.splits prod.splits)

lemma fetch_xsd_unfold:
  "fetch_xsd env u =
     (case requests_get env u 10 of
        Inl e \<Rightarrow>
          (case fetch_xsd_handler env u e of
             None \<Rightarrow> (Inl e, [HttpGet u 10])
           | Some h \<Rightarrow> (fst h, HttpGet u 10 # snd h))
      | Inr r \<Rightarrow>
          (case raise_for_status r of
             Inl e \<Rightarrow>
               (case fetch_xsd_handler env u e of
                  None \<Rightarrow> (Inl e, [HttpGet u 10])
                | Some h \<Rightarrow> (fst h, HttpGet u 10 # snd h))
           | Inr _ \<Rightarrow>
               (case etree_XML env (content r) of
                  Inl e \<Rightarrow>
                    (case fetch_xsd_handler env u e of
                       None \<Rightarrow> (Inl e, [HttpGet u 10])
                     | Some h \<Rightarrow> (fst h, HttpGet u 10 # snd h))
                | Inr t \<Rightarrow>
                    (case etree_XMLSchema env t of
                       Inl e \<Rightarrow>
                         (case fetch_xsd_handler env u e of
                            None \<Rightarrow> (Inl e, [HttpGet u 10])
                          | Some h \<Rightarrow> (fst h, HttpGet u 10 # snd h))
                     | Inr s \<Rightarrow> (Inr (Some s), [HttpGet u 10])))))"
  by (simp add: fetch_xsd_def fetch_xsd_body_def io_bind_def io_return_def io_lift_def call_def
        try_except_def split: sum.splits prod.splits option.splits)

lemma fetch_xsd_handler_trace:
  "fetch_xsd_handler env u e = Some h \<Longrightarrow>
   (fst h = Inr None \<and> length (status_lines (snd h)) = 1 \<and> filter is_file_access (snd h) = [])
   \<or> (\<exists>e'. fst h = Inl e' \<and> snd h = [])"
  by (auto simp add: fetch_xsd_handler_def io_defs status_lines_def
        split: if_splits sum.splits)

lemma validate_xml_unfold:
  "validate_xml env p ov =
     (case validate_xml_body env p ov of
        (Inr b, tr) \<Rightarrow> (Inr b, tr)
      | (Inl e, tr) \<Rightarrow>
          (case stdout_write env
                  (Text (COLOR_ERROR @ ''[ERROR] Failed to validate '' @ p @ '': ''
                         @ str_exn e @ COLOR_RESET)) of
             Inl e' \<Rightarrow> (Inl e', tr)
           | Inr u \<Rightarrow>
               (Inr False,
                tr @ [Print (Text (COLOR_ERROR @ ''[ERROR] Failed to validate '' @ p @ '': ''
                                   @ str_exn e @ COLOR_RESET))])))"
  by (simp add: validate_xml_def validate_xml_handler_def io_defs split: sum.splits prod.splits)

lemma body_parse_fail:
  "etree_parse env p = Inl e \<Longrightarrow> validate_xml_body env p ov = (Inl e, [ParseFile p])"
  by (simp add: validate_xml_body_def io_defs)

lemma body_override:
  "etree_parse env p = Inr t \<Longrightarrow> truthy ov \<Longrightarrow>
   validate_xml_body env p ov =
     (fst (validate_xml_local env t (the ov) p),
      ParseFile p # snd (validate_xml_local env t (the ov) p))"
  by (simp add: validate_xml_body_def io_defs split: prod.splits)

lemma body_skip:
  "etree_parse env p = Inr t \<Longrightarrow> \<not> truthy ov \<Longrightarrow>
   \<not> truthy (attrib_get t (''{'' @ xsi_ns @ ''}noNamespaceSchemaLocation'')) \<Longrightarrow>
   validate_xml_body env p ov =
     (case stdout_write env
             (Text (COLOR_WARNING @ ''[WARNING] No XSD location found in '' @ p
                    @ ''. Skipping validation.'' @ COLOR_RESET)) of
        Inl e \<Rightarrow> (Inl e, [ParseFile p])
      | Inr u \<Rightarrow>
          (Inr False,
           [ParseFile p,
            Print (Text (COLOR_WARNING @ ''[WARNING] No XSD location found in '' @ p
                         @ ''. Skipping validation.'' @ COLOR_RESET))]))"
  by (simp add: validate_xml_body_def io_defs split: prod.splits sum.splits)

lemma body_remote:
  "etree_parse env p = Inr t \<Longrightarrow> \<not> truthy ov \<Longrightarrow>
   attrib_get t (''{'' @ xsi_ns @ ''}noNamespaceSchemaLocation'') = Some loc \<Longrightarrow>
   loc \<noteq> [] \<Longrightarrow> startswith loc ''http://'' \<or> startswith loc ''https://'' \<Longrightarrow>
   validate_xml_body env p ov =
     (case fetch_xsd env loc of
        (Inl e, tr) \<Rightarrow> (Inl e, ParseFile p # tr)
      | (Inr None, tr) \<Rightarrow> (Inr False, ParseFile p # tr)
      | (Inr (Some s), tr) \<Rightarrow>
          (fst (validate_with_schema env t s p),
           ParseFile p # tr @ snd (validate_with_schema env t s p)))"
  by (simp add: validate_xml_body_def io_bind_def io_return_def call_def
        split: prod.splits sum.splits option.splits)

lemma body_local:
  "etree_parse env p = Inr t \<Longrightarrow> \<not> truthy ov \<Longrightarrow>
   attrib_get t (''{'' @ xsi_ns @ ''}noNamespaceSchemaLocation'') = Some loc \<Longrightarrow>
   loc \<noteq> [] \<Longrightarrow> \<not> (startswith loc ''http://'' \<or> startswith loc ''https://'') \<Longrightarrow>
   validate_xml_body env p ov =
     (fst (validate_xml_local env t (os_path_join (os_path_dirname p) loc) p),
      ParseFile p # snd (validate_xml_local env t (os_path_join (os_path_dirname p) loc) p))"
  by (simp add: validate_xml_body_def io_bind_def call_def split: prod.splits)


subsection \<open>Status lines when every text is written\<close>





lemma validate_xml_returns:
  assumes "stdout_ok env"
  shows "\<exists>b. fst (validate_xml env p ov) = Inr b"
proof -
  obtain r tr where b: "validate_xml_body env p ov = (r, tr)"
    by (cases "validate_xml_body env p ov")
  with assms show ?thesis
    by (cases r) (auto simp add: validate_xml_unfold stdout_ok_def)
qed


subsection \<open>The loop over the files\<close>


lemma for_each_stops:
  assumes "\<And>x. x \<in> set pre \<Longrightarrow> \<exists>tr. f x = (Inr (), tr)"
    and "fst (f y) = Inl e"
  shows "for_each (pre @ y # post) f = (Inl e, concat (map (\<lambda>x. snd (f x)) pre) @ snd (f y))"
  using assms
proof (induction pre)
  case Nil
  then show ?case by (cases "f y") (simp add: io_bind_def)
next
  case (Cons x pre)
  from Cons.prems obtain tr where "f x = (Inr (), tr)" by auto
  moreover have "for_each (pre @ y # post) f
                   = (Inl e, concat (map (\<lambda>x. snd (f x)) pre) @ snd (f y))"
    using Cons by simp
  ultimately show ?case by (simp add: io_bind_def)
qed


lemma validate_xml_unit_raise:
  assumes "fst (validate_xml env p ov) = Inl e"
  shows "io_bind (validate_xml env p ov) (\<lambda>_. io_return ()) = (Inl e, snd (validate_xml env p ov))"
  using assms by (cases "validate_xml env p ov") (simp add: io_bind_def io_return_def)



lemmas run_defs = validate_xml_unfold validate_xml_body_def validate_xml_local_unfold
  validate_with_schema_unfold fetch_xsd_unfold fetch_xsd_handler_def raise_for_status_def
  http_error_msg_def isinstance_RequestException_def isinstance_XMLSyntaxError_def
  attrib_get_def io_defs startswith_def endswith_def os_path_join_def os_path_dirname_def

lemma validate_xml_local_events:
  "ev \<in> set (snd (validate_xml_local env t x p)) \<Longrightarrow>
   ev = PathExists x \<or> ev = ParseFile x \<or> is_print ev"
  by (auto simp add: validate_xml_local_unfold validate_with_schema_unfold
        split: if_splits sum.splits prod.splits)

lemma body_override_eq:
  "truthy ov \<Longrightarrow>
   validate_xml_body env p ov =
     io_bind (call (ParseFile p) (etree_parse env p)) (\<lambda>t. validate_xml_local env t (the ov) p)"
  by (simp add: validate_xml_body_def)

lemma absolute_not_url:
  "startswith loc ''/'' \<Longrightarrow>
   loc \<noteq> [] \<and> \<not> (startswith loc ''http://'' \<or> startswith loc ''https://'')"
  by (cases loc) (auto simp add: startswith_def)

subsection \<open>The validator\<close>



subsection \<open>A document without a schema location\<close>

text \<open>
  A document without the attribute and a document that violates its schema give
  \<^verbatim>\<open>validate_xml\<close> the same return value, \<open>False\<close>: the value returned for a
  skipped file is the one returned for an invalid file.
\<close>

theorem skipped_returns_like_failure_counterexample:
  "attrib_get (doc_with [] ''name'') (''{'' @ xsi_ns @ ''}noNamespaceSchemaLocation'') = None
   \<and> etree_parse ex_env ''docs/b.xml'' = Inr (doc_with [] ''name'')
   \<and> fst (validate_xml ex_env ''docs/b.xml'' None) = Inr False
   \<and> XMLSchema_validate ex_env (XMLSchema xsd_a) (doc_with [(loc_key, ''a.xsd'')] [])
       = Inr (False, [missing_name])
   \<and> etree_parse ex_env ''docs/e.xml'' = Inr (doc_with [(loc_key, ''a.xsd'')] [])
   \<and> fst (validate_xml ex_env ''docs/e.xml'' None) = Inr False
   \<and> fst (validate_xml ex_env ''docs/b.xml'' None) = fst (validate_xml ex_env ''docs/e.xml'' None)"
  by (simp add: run_defs ex_defs)

text \<open>
  Claim C2, as the script has it. For every document whose root element has no
  \<^verbatim>\<open>xsi:noNamespaceSchemaLocation\<close> attribute, when no \<^verbatim>\<open>--xsd\<close> override is in
  force, \<^verbatim>\<open>validate_xml\<close> parses the document, prints one warning that names the file
  and returns \<open>False\<close>, the value it also returns for an invalid document. No schema is
  looked for and no OK or KO line is printed: the skip shows in the printed warning only.
  The equation is for the runs in which the standard output takes the warning.
\<close>

theorem no_schema_location_skips:
  assumes "\<not> truthy xsd_override"
    and "etree_parse env xml_path = Inr xml_tree"
    and "attrib_get xml_tree (''{'' @ xsi_ns @ ''}noNamespaceSchemaLocation'') = None"
    and "stdout_write env
           (Text (COLOR_WARNING @ ''[WARNING] No XSD location found in '' @ xml_path
                  @ ''. Skipping validation.'' @ COLOR_RESET)) = Inr ()"
  shows "validate_xml env xml_path xsd_override =
           (Inr False,
            [ParseFile xml_path,
             Print (Text (COLOR_WARNING @ ''[WARNING] No XSD location found in '' @ xml_path
                          @ ''. Skipping validation.'' @ COLOR_RESET))])"
  using assms by (simp add: validate_xml_unfold body_skip)

text \<open>The document \<^verbatim>\<open>docs/b.xml\<close> of the example environment is skipped in this way.\<close>

theorem no_schema_location_skips_witness:
  "\<not> truthy None
   \<and> etree_parse ex_env ''docs/b.xml'' = Inr (doc_with [] ''name'')
   \<and> attrib_get (doc_with [] ''name'') (''{'' @ xsi_ns @ ''}noNamespaceSchemaLocation'') = None
   \<and> stdout_write ex_env
        (Text (COLOR_WARNING @ ''[WARNING] No XSD location found in '' @ ''docs/b.xml''
               @ ''. Skipping validation.'' @ COLOR_RESET)) = Inr ()
   \<and> validate_xml ex_env ''docs/b.xml'' None =
        (Inr False,
         [ParseFile ''docs/b.xml'',
          Print (Text (COLOR_WARNING @ ''[WARNING] No XSD location found in '' @ ''docs/b.xml''
                       @ ''. Skipping validation.'' @ COLOR_RESET))])"
proof -
  have h1: "\<not> truthy None" by simp
  have h2: "etree_parse ex_env ''docs/b.xml'' = Inr (doc_with [] ''name'')"
    by (simp add: ex_env_def ex_parse_def)
  have h3: "attrib_get (doc_with [] ''name'') (''{'' @ xsi_ns @ ''}noNamespaceSchemaLocation'') = None"
    by (simp add: attrib_get_def doc_with_def)
  have h4: "stdout_write ex_env
        (Text (COLOR_WARNING @ ''[WARNING] No XSD location found in '' @ ''docs/b.xml''
               @ ''. Skipping validation.'' @ COLOR_RESET)) = Inr ()"
    by (simp add: ex_env_def)
  from no_schema_location_skips[OF h1 h2 h3 h4] h1 h2 h3 h4 show ?thesis by blast
qed

subsection \<open>The schema override\<close>

text \<open>
  An override that is the empty string is false in the test \<^verbatim>\<open>if xsd_override:\<close>, so
  the schema location of the document is read and used: the run below checks and parses
  \<^verbatim>\<open>docs/a.xsd\<close>, not the override.
\<close>

theorem override_wins_counterexample:
  "etree_parse ex_env ''docs/a.xml'' = Inr (doc_with [(loc_key, ''a.xsd'')] ''name'')
   \<and> validate_xml ex_env ''docs/a.xml'' (Some []) =
       (Inr True,
        [ParseFile ''docs/a.xml'', PathExists ''docs/a.xsd'', ParseFile ''docs/a.xsd'',
         Print (Text (COLOR_OK @ ''[OK] '' @ ''docs/a.xml'' @ '' is valid.'' @ COLOR_RESET))])
   \<and> PathExists [] \<notin> set (snd (validate_xml ex_env ''docs/a.xml'' (Some [])))"
  by (simp add: run_defs ex_defs)

text \<open>
  Claim C3, as the script has it. For every input, if the \<^verbatim>\<open>xsd_override\<close> argument
  is a non-empty string, \<^verbatim>\<open>validate_xml\<close> uses it as the local path of the schema:
  the run is the parse of the document followed by the local validation against the
  override, and the only things it does to the outside world are parsing the document,
  checking and parsing the override path, and printing. There is no HTTP request, whatever
  the document's own schema location says.
\<close>

theorem override_wins:
  assumes "xsd_override \<noteq> []"
  shows "validate_xml env xml_path (Some xsd_override) =
           try_except
             (io_bind (call (ParseFile xml_path) (etree_parse env xml_path))
                (\<lambda>xml_tree. validate_xml_local env xml_tree xsd_override xml_path))
             (validate_xml_handler env xml_path)
         \<and> (\<forall>ev \<in> set (snd (validate_xml env xml_path (Some xsd_override))).
               ev = ParseFile xml_path \<or> ev = PathExists xsd_override
               \<or> ev = ParseFile xsd_override \<or> is_print ev)
         \<and> filter is_http_get (snd (validate_xml env xml_path (Some xsd_override))) = []"
proof (intro conjI)
  from assms show "validate_xml env xml_path (Some xsd_override) =
           try_except
             (io_bind (call (ParseFile xml_path) (etree_parse env xml_path))
                (\<lambda>xml_tree. validate_xml_local env xml_tree xsd_override xml_path))
             (validate_xml_handler env xml_path)"
    by (simp add: validate_xml_def body_override_eq)
next
  have t: "truthy (Some xsd_override)" using assms by simp
  show evs: "\<forall>ev \<in> set (snd (validate_xml env xml_path (Some xsd_override))).
               ev = ParseFile xml_path \<or> ev = PathExists xsd_override
               \<or> ev = ParseFile xsd_override \<or> is_print ev"
  proof
    fix ev
    assume ev: "ev \<in> set (snd (validate_xml env xml_path (Some xsd_override)))"
    show "ev = ParseFile xml_path \<or> ev = PathExists xsd_override
               \<or> ev = ParseFile xsd_override \<or> is_print ev"
    proof (cases "etree_parse env xml_path")
      case (Inl e)
      with ev show ?thesis
        by (auto simp add: validate_xml_unfold body_parse_fail split: sum.splits)
    next
      case (Inr xml_tree)
      obtain r tr where l: "validate_xml_local env xml_tree xsd_override xml_path = (r, tr)"
        by (cases "validate_xml_local env xml_tree xsd_override xml_path")
      from ev l have "ev = ParseFile xml_path \<or> ev \<in> set tr \<or> is_print ev"
        by (cases r)
           (auto simp add: validate_xml_unfold body_override[OF Inr t] split: sum.splits)
      moreover have "ev \<in> set tr \<Longrightarrow>
          ev = PathExists xsd_override \<or> ev = ParseFile xsd_override \<or> is_print ev"
        using validate_xml_local_events[of ev env xml_tree xsd_override xml_path] l by simp
      ultimately show ?thesis by blast
    qed
  qed
  have "\<not> is_http_get ev"
    if "ev \<in> set (snd (validate_xml env xml_path (Some xsd_override)))" for ev
  proof -
    from evs that have "ev = ParseFile xml_path \<or> ev = PathExists xsd_override
               \<or> ev = ParseFile xsd_override \<or> is_print ev"
      by blast
    then show ?thesis by (cases ev) auto
  qed
  then show "filter is_http_get (snd (validate_xml env xml_path (Some xsd_override))) = []"
    by (simp add: filter_empty_conv)
qed

text \<open>
  With the override \<^verbatim>\<open>other.xsd\<close>, the document \<^verbatim>\<open>docs/a.xml\<close>, which is valid for the
  schema \<^verbatim>\<open>a.xsd\<close> it names, is checked against the override and found invalid.
\<close>

theorem override_wins_witness:
  "''other.xsd'' \<noteq> []
   \<and> etree_parse ex_env ''docs/a.xml'' = Inr (doc_with [(loc_key, ''a.xsd'')] ''name'')
   \<and> validate_xml ex_env ''docs/a.xml'' (Some ''other.xsd'') =
       (Inr False,
        [ParseFile ''docs/a.xml'', PathExists ''other.xsd'', ParseFile ''other.xsd'',
         Print (Text (COLOR_ERROR @ ''[KO] '' @ ''docs/a.xml'' @ '' is NOT valid.''
                      @ COLOR_RESET)),
         Print (ErrorLog [missing_name])])"
proof -
  have h: "''other.xsd'' \<noteq> []" by simp
  have p: "etree_parse ex_env ''docs/a.xml'' = Inr (doc_with [(loc_key, ''a.xsd'')] ''name'')"
    by (simp add: ex_env_def ex_parse_def)
  have "try_except
          (io_bind (call (ParseFile ''docs/a.xml'') (etree_parse ex_env ''docs/a.xml''))
             (\<lambda>xml_tree. validate_xml_local ex_env xml_tree ''other.xsd'' ''docs/a.xml''))
          (validate_xml_handler ex_env ''docs/a.xml'') =
       (Inr False,
        [ParseFile ''docs/a.xml'', PathExists ''other.xsd'', ParseFile ''other.xsd'',
         Print (Text (COLOR_ERROR @ ''[KO] '' @ ''docs/a.xml'' @ '' is NOT valid.''
                      @ COLOR_RESET)),
         Print (ErrorLog [missing_name])])"
    by (simp add: validate_xml_local_unfold validate_with_schema_unfold io_defs ex_defs)
  with override_wins[OF h, of ex_env "''docs/a.xml''"] h p show ?thesis by simp
qed

subsection \<open>The schema fetcher\<close>

text \<open>
  Two runs of \<^verbatim>\<open>fetch_xsd\<close>. A response with status 200 whose body is well-formed
  XML but no schema makes the schema constructor raise \<^verbatim>\<open>XMLSchemaParseError\<close>, which
  neither \<^verbatim>\<open>except\<close> clause catches: the exception reaches the caller and nothing is
  printed. A final response with status 300 that carries a schema is not an error for
  \<^verbatim>\<open>raise_for_status\<close>, and the schema is returned.
\<close>

theorem fetch_xsd_failures_counterexample:
  "requests_get ex_env ''https://h/foo.xml'' 10 =
     Inr \<lparr>status_code = 200, reason = ''OK'', url = ''https://h/foo.xml'', content = ''<foo/>''\<rparr>
   \<and> etree_XML ex_env ''<foo/>'' = Inr doc_foo
   \<and> etree_XMLSchema ex_env doc_foo =
       Inl (Exn XMLSchemaParseError ''The XML document is not a schema document.'')
   \<and> fetch_xsd ex_env ''https://h/foo.xml'' =
       (Inl (Exn XMLSchemaParseError ''The XML document is not a schema document.''),
        [HttpGet ''https://h/foo.xml'' 10])
   \<and> requests_get ex_env ''http://h/multi.xsd'' 10 =
       Inr \<lparr>status_code = 300, reason = ''Multiple Choices'', url = ''http://h/multi.xsd'',
            content = ''<schema/>''\<rparr>
   \<and> fetch_xsd ex_env ''http://h/multi.xsd'' =
       (Inr (Some (XMLSchema xsd_a)), [HttpGet ''http://h/multi.xsd'' 10])"
  by (simp add: fetch_xsd_unfold fetch_xsd_handler_def raise_for_status_def
        isinstance_RequestException_def isinstance_XMLSyntaxError_def ex_defs)

text \<open>
  Claim C4, as the script has it. For every URL, \<^verbatim>\<open>fetch_xsd\<close> does one GET with a
  timeout of 10 seconds. It returns the compiled schema when the request succeeds with a
  status outside 400 to 599 and the body parses and compiles. When the request raises a
  \<^verbatim>\<open>RequestException\<close> (a network error, a timeout), when the status is from 400 to 599,
  or when the body is not well-formed XML, it prints one error line that names the URL and
  the cause and returns \<open>None\<close>. The equations of the three failures are for the runs in
  which the standard output takes the error line.
\<close>

theorem fetch_xsd_outcomes:
  "(\<forall>r t s. requests_get env xsd_url 10 = Inr r
        \<and> \<not> (400 \<le> status_code r \<and> status_code r < 600)
        \<and> etree_XML env (content r) = Inr t \<and> etree_XMLSchema env t = Inr s \<longrightarrow>
        fetch_xsd env xsd_url = (Inr (Some s), [HttpGet xsd_url 10]))
   \<and> (\<forall>e. requests_get env xsd_url 10 = Inl e \<and> isinstance_RequestException e
        \<and> stdout_write env
             (Text (COLOR_ERROR @ ''[ERROR] Failed to fetch XSD from '' @ xsd_url
                    @ '': '' @ str_exn e @ COLOR_RESET)) = Inr () \<longrightarrow>
        fetch_xsd env xsd_url =
          (Inr None,
           [HttpGet xsd_url 10,
            Print (Text (COLOR_ERROR @ ''[ERROR] Failed to fetch XSD from '' @ xsd_url
                         @ '': '' @ str_exn e @ COLOR_RESET))]))
   \<and> (\<forall>r. requests_get env xsd_url 10 = Inr r
        \<and> 400 \<le> status_code r \<and> status_code r < 600
        \<and> stdout_write env
             (Text (COLOR_ERROR @ ''[ERROR] Failed to fetch XSD from '' @ xsd_url
                    @ '': '' @ http_error_msg r @ COLOR_RESET)) = Inr () \<longrightarrow>
        fetch_xsd env xsd_url =
          (Inr None,
           [HttpGet xsd_url 10,
            Print (Text (COLOR_ERROR @ ''[ERROR] Failed to fetch XSD from '' @ xsd_url
                         @ '': '' @ http_error_msg r @ COLOR_RESET))]))
   \<and> (\<forall>r e. requests_get env xsd_url 10 = Inr r
        \<and> \<not> (400 \<le> status_code r \<and> status_code r < 600)
        \<and> etree_XML env (content r) = Inl e \<and> exn_cls e = XMLSyntaxError
        \<and> stdout_write env
             (Text (COLOR_ERROR @ ''[ERROR] Invalid XSD format from '' @ xsd_url
                    @ '': '' @ str_exn e @ COLOR_RESET)) = Inr () \<longrightarrow>
        fetch_xsd env xsd_url =
          (Inr None,
           [HttpGet xsd_url 10,
            Print (Text (COLOR_ERROR @ ''[ERROR] Invalid XSD format from '' @ xsd_url
                         @ '': '' @ str_exn e @ COLOR_RESET))]))"
  by (simp add: fetch_xsd_unfold fetch_xsd_handler_def raise_for_status_def
        isinstance_RequestException_def isinstance_XMLSyntaxError_def io_defs)

text \<open>
  The four cases in the example environment: a good schema, a timeout, a 404 and a
  truncated body.
\<close>

theorem fetch_xsd_outcomes_witness:
  "requests_get ex_env ''http://h/a.xsd'' 10 =
     Inr \<lparr>status_code = 200, reason = ''OK'', url = ''http://h/a.xsd'', content = ''<schema/>''\<rparr>
   \<and> etree_XML ex_env ''<schema/>'' = Inr xsd_a
   \<and> etree_XMLSchema ex_env xsd_a = Inr (XMLSchema xsd_a)
   \<and> requests_get ex_env ''http://h/slow.xsd'' 10 = Inl (Exn Timeout ''Read timed out.'')
   \<and> isinstance_RequestException (Exn Timeout ''Read timed out.'')
   \<and> requests_get ex_env ''http://h/gone.xsd'' 10 =
       Inr \<lparr>status_code = 404, reason = ''Not Found'', url = ''http://h/gone.xsd'',
            content = ''<schema/>''\<rparr>
   \<and> requests_get ex_env ''http://h/bad.xsd'' 10 =
       Inr \<lparr>status_code = 200, reason = ''OK'', url = ''http://h/bad.xsd'', content = ''<schema''\<rparr>
   \<and> etree_XML ex_env ''<schema'' = Inl (Exn XMLSyntaxError ''Document is empty or truncated'')
   \<and> fetch_xsd ex_env ''http://h/a.xsd'' =
       (Inr (Some (XMLSchema xsd_a)), [HttpGet ''http://h/a.xsd'' 10])
   \<and> fetch_xsd ex_env ''http://h/slow.xsd'' =
       (Inr None,
        [HttpGet ''http://h/slow.xsd'' 10,
         Print (Text (COLOR_ERROR @ ''[ERROR] Failed to fetch XSD from '' @ ''http://h/slow.xsd''
                      @ '': '' @ ''Read timed out.'' @ COLOR_RESET))])
   \<and> fetch_xsd ex_env ''http://h/gone.xsd'' =
       (Inr None,
        [HttpGet ''http://h/gone.xsd'' 10,
         Print (Text (COLOR_ERROR @ ''[ERROR] Failed to fetch XSD from '' @ ''http://h/gone.xsd''
                      @ '': '' @ ''404 Client Error: Not Found for url: http://h/gone.xsd''
                      @ COLOR_RESET))])
   \<and> fetch_xsd ex_env ''http://h/bad.xsd'' =
       (Inr None,
        [HttpGet ''http://h/bad.xsd'' 10,
         Print (Text (COLOR_ERROR @ ''[ERROR] Invalid XSD format from '' @ ''http://h/bad.xsd''
                      @ '': '' @ ''Document is empty or truncated'' @ COLOR_RESET))])"
proof -
  have w: "stdout_write ex_env p = Inr ()" for p
    by (simp add: ex_env_def)
  have a: "requests_get ex_env ''http://h/a.xsd'' 10 =
             Inr \<lparr>status_code = 200, reason = ''OK'', url = ''http://h/a.xsd'',
                  content = ''<schema/>''\<rparr>
           \<and> \<not> (400 \<le> status_code \<lparr>status_code = 200, reason = ''OK'', url = ''http://h/a.xsd'',
                  content = ''<schema/>''\<rparr>
                \<and> status_code \<lparr>status_code = 200, reason = ''OK'', url = ''http://h/a.xsd'',
                  content = ''<schema/>''\<rparr> < 600)
           \<and> etree_XML ex_env (content \<lparr>status_code = 200, reason = ''OK'',
                  url = ''http://h/a.xsd'', content = ''<schema/>''\<rparr>) = Inr xsd_a
           \<and> etree_XMLSchema ex_env xsd_a = Inr (XMLSchema xsd_a)"
    by (simp add: ex_defs)
  have b: "requests_get ex_env ''http://h/slow.xsd'' 10 = Inl (Exn Timeout ''Read timed out.'')
           \<and> isinstance_RequestException (Exn Timeout ''Read timed out.'')"
    by (simp add: ex_defs isinstance_RequestException_def)
  have c: "requests_get ex_env ''http://h/gone.xsd'' 10 =
             Inr \<lparr>status_code = 404, reason = ''Not Found'', url = ''http://h/gone.xsd'',
                  content = ''<schema/>''\<rparr>
           \<and> 400 \<le> status_code \<lparr>status_code = 404, reason = ''Not Found'',
                  url = ''http://h/gone.xsd'', content = ''<schema/>''\<rparr>
           \<and> status_code \<lparr>status_code = 404, reason = ''Not Found'',
                  url = ''http://h/gone.xsd'', content = ''<schema/>''\<rparr> < 600"
    by (simp add: ex_defs)
  have cm: "http_error_msg \<lparr>status_code = 404, reason = ''Not Found'',
                  url = ''http://h/gone.xsd'', content = ''<schema/>''\<rparr>
            = ''404 Client Error: Not Found for url: http://h/gone.xsd''"
    by (simp add: http_error_msg_def string_of_nat.simps digit_char_def)
  have d: "requests_get ex_env ''http://h/bad.xsd'' 10 =
             Inr \<lparr>status_code = 200, reason = ''OK'', url = ''http://h/bad.xsd'',
                  content = ''<schema''\<rparr>
           \<and> \<not> (400 \<le> status_code \<lparr>status_code = 200, reason = ''OK'', url = ''http://h/bad.xsd'',
                  content = ''<schema''\<rparr>
                \<and> status_code \<lparr>status_code = 200, reason = ''OK'', url = ''http://h/bad.xsd'',
                  content = ''<schema''\<rparr> < 600)
           \<and> etree_XML ex_env (content \<lparr>status_code = 200, reason = ''OK'',
                  url = ''http://h/bad.xsd'', content = ''<schema''\<rparr>)
               = Inl (Exn XMLSyntaxError ''Document is empty or truncated'')
           \<and> exn_cls (Exn XMLSyntaxError ''Document is empty or truncated'') = XMLSyntaxError"
    by (simp add: ex_defs)
  from a fetch_xsd_outcomes[of ex_env "''http://h/a.xsd''"]
  have ra: "fetch_xsd ex_env ''http://h/a.xsd'' =
              (Inr (Some (XMLSchema xsd_a)), [HttpGet ''http://h/a.xsd'' 10])"
    by blast
  from b w fetch_xsd_outcomes[of ex_env "''http://h/slow.xsd''"]
  have rb: "fetch_xsd ex_env ''http://h/slow.xsd'' =
       (Inr None,
        [HttpGet ''http://h/slow.xsd'' 10,
         Print (Text (COLOR_ERROR @ ''[ERROR] Failed to fetch XSD from '' @ ''http://h/slow.xsd''
                      @ '': '' @ str_exn (Exn Timeout ''Read timed out.'') @ COLOR_RESET))])"
    by blast
  from c w fetch_xsd_outcomes[of ex_env "''http://h/gone.xsd''"]
  have rc: "fetch_xsd ex_env ''http://h/gone.xsd'' =
       (Inr None,
        [HttpGet ''http://h/gone.xsd'' 10,
         Print (Text (COLOR_ERROR @ ''[ERROR] Failed to fetch XSD from '' @ ''http://h/gone.xsd''
                      @ '': '' @ http_error_msg \<lparr>status_code = 404, reason = ''Not Found'',
                  url = ''http://h/gone.xsd'', content = ''<schema/>''\<rparr> @ COLOR_RESET))])"
    by blast
  from d w fetch_xsd_outcomes[of ex_env "''http://h/bad.xsd''"]
  have rd: "fetch_xsd ex_env ''http://h/bad.xsd'' =
       (Inr None,
        [HttpGet ''http://h/bad.xsd'' 10,
         Print (Text (COLOR_ERROR @ ''[ERROR] Invalid XSD format from '' @ ''http://h/bad.xsd''
                      @ '': '' @ str_exn (Exn XMLSyntaxError ''Document is empty or truncated'')
                      @ COLOR_RESET))])"
    by blast
  from a b c d ra rb rc rd cm show ?thesis by simp
qed

subsection \<open>A local schema location\<close>

text \<open>
  A schema location that is present but empty does not start with \<^verbatim>\<open>http://\<close> or
  \<^verbatim>\<open>https://\<close>, and the script treats it as absent: it prints the warning and looks
  for no file.
\<close>

theorem local_schema_location_counterexample:
  "etree_parse ex_env ''docs/z.xml'' = Inr (doc_with [(loc_key, [])] ''name'')
   \<and> attrib_get (doc_with [(loc_key, [])] ''name'')
         (''{'' @ xsi_ns @ ''}noNamespaceSchemaLocation'') = Some []
   \<and> \<not> startswith [] ''http://'' \<and> \<not> startswith [] ''https://''
   \<and> validate_xml ex_env ''docs/z.xml'' None =
       (Inr False,
        [ParseFile ''docs/z.xml'',
         Print (Text (COLOR_WARNING @ ''[WARNING] No XSD location found in '' @ ''docs/z.xml''
                      @ ''. Skipping validation.'' @ COLOR_RESET))])"
  by (simp add: run_defs ex_defs)

text \<open>
  Claim C5, as the script has it. For every document whose schema location is not empty
  and does not start with \<^verbatim>\<open>http://\<close> or \<^verbatim>\<open>https://\<close>, when no override is in force,
  \<^verbatim>\<open>validate_xml\<close> joins the location to the directory of the XML file. If that path
  does not exist it prints an error naming the path and returns \<open>False\<close>; otherwise it
  parses the file, compiles it as a schema and validates the document against it, and
  returns what the validation returns. The equations that end in a printed line are for the
  runs in which the standard output takes it.
\<close>

theorem local_schema_location:
  assumes "\<not> truthy xsd_override"
    and "etree_parse env xml_path = Inr xml_tree"
    and "attrib_get xml_tree (''{'' @ xsi_ns @ ''}noNamespaceSchemaLocation'') = Some xsd_location"
    and "xsd_location \<noteq> []"
    and "\<not> startswith xsd_location ''http://''"
    and "\<not> startswith xsd_location ''https://''"
    and "xsd_path = os_path_join (os_path_dirname xml_path) xsd_location"
  shows "(\<not> os_path_exists env xsd_path
          \<and> stdout_write env
               (Text (COLOR_ERROR @ ''[ERROR] XSD file '' @ [CHR 0x27] @ xsd_path
                      @ [CHR 0x27] @ '' not found.'' @ COLOR_RESET)) = Inr () \<longrightarrow>
            validate_xml env xml_path xsd_override =
              (Inr False,
               [ParseFile xml_path, PathExists xsd_path,
                Print (Text (COLOR_ERROR @ ''[ERROR] XSD file '' @ [CHR 0x27] @ xsd_path
                             @ [CHR 0x27] @ '' not found.'' @ COLOR_RESET))]))
       \<and> (\<forall>xsd_tree xsd_schema.
             os_path_exists env xsd_path \<and> etree_parse env xsd_path = Inr xsd_tree
             \<and> etree_XMLSchema env xsd_tree = Inr xsd_schema \<longrightarrow>
             validate_xml_body env xml_path xsd_override =
               (fst (validate_with_schema env xml_tree xsd_schema xml_path),
                [ParseFile xml_path, PathExists xsd_path, ParseFile xsd_path]
                @ snd (validate_with_schema env xml_tree xsd_schema xml_path)))
       \<and> (\<forall>xsd_tree xsd_schema valid.
             os_path_exists env xsd_path \<and> etree_parse env xsd_path = Inr xsd_tree
             \<and> etree_XMLSchema env xsd_tree = Inr xsd_schema
             \<and> fst (validate_with_schema env xml_tree xsd_schema xml_path) = Inr valid \<longrightarrow>
             validate_xml env xml_path xsd_override =
               (Inr valid,
                [ParseFile xml_path, PathExists xsd_path, ParseFile xsd_path]
                @ snd (validate_with_schema env xml_tree xsd_schema xml_path)))
       \<and> (\<forall>xsd_tree xsd_schema valid log.
             os_path_exists env xsd_path \<and> etree_parse env xsd_path = Inr xsd_tree
             \<and> etree_XMLSchema env xsd_tree = Inr xsd_schema
             \<and> XMLSchema_validate env xsd_schema xml_tree = Inr (valid, log)
             \<and> stdout_ok env \<longrightarrow>
             validate_xml env xml_path xsd_override =
               (Inr valid,
                [ParseFile xml_path, PathExists xsd_path, ParseFile xsd_path]
                @ snd (validate_with_schema env xml_tree xsd_schema xml_path)))"
proof -
  have l: "\<not> (startswith xsd_location ''http://'' \<or> startswith xsd_location ''https://'')"
    using assms(5,6) by simp
  note b = body_local[OF assms(2) assms(1) assms(3) assms(4) l, folded assms(7)]
  show ?thesis
  proof (intro conjI allI impI)
    assume "\<not> os_path_exists env xsd_path
          \<and> stdout_write env
               (Text (COLOR_ERROR @ ''[ERROR] XSD file '' @ [CHR 0x27] @ xsd_path
                      @ [CHR 0x27] @ '' not found.'' @ COLOR_RESET)) = Inr ()"
    then show "validate_xml env xml_path xsd_override =
              (Inr False,
               [ParseFile xml_path, PathExists xsd_path,
                Print (Text (COLOR_ERROR @ ''[ERROR] XSD file '' @ [CHR 0x27] @ xsd_path
                             @ [CHR 0x27] @ '' not found.'' @ COLOR_RESET))])"
      by (simp add: validate_xml_unfold b validate_xml_local_unfold)
  next
    fix xsd_tree xsd_schema
    assume "os_path_exists env xsd_path \<and> etree_parse env xsd_path = Inr xsd_tree
             \<and> etree_XMLSchema env xsd_tree = Inr xsd_schema"
    then show "validate_xml_body env xml_path xsd_override =
               (fst (validate_with_schema env xml_tree xsd_schema xml_path),
                [ParseFile xml_path, PathExists xsd_path, ParseFile xsd_path]
                @ snd (validate_with_schema env xml_tree xsd_schema xml_path))"
      by (simp add: b validate_xml_local_unfold)
  next
    fix xsd_tree xsd_schema valid
    assume "os_path_exists env xsd_path \<and> etree_parse env xsd_path = Inr xsd_tree
             \<and> etree_XMLSchema env xsd_tree = Inr xsd_schema
             \<and> fst (validate_with_schema env xml_tree xsd_schema xml_path) = Inr valid"
    then show "validate_xml env xml_path xsd_override =
               (Inr valid,
                [ParseFile xml_path, PathExists xsd_path, ParseFile xsd_path]
                @ snd (validate_with_schema env xml_tree xsd_schema xml_path))"
      by (simp add: validate_xml_unfold b validate_xml_local_unfold)
  next
    fix xsd_tree xsd_schema valid log
    assume "os_path_exists env xsd_path \<and> etree_parse env xsd_path = Inr xsd_tree
             \<and> etree_XMLSchema env xsd_tree = Inr xsd_schema
             \<and> XMLSchema_validate env xsd_schema xml_tree = Inr (valid, log)
             \<and> stdout_ok env"
    then show "validate_xml env xml_path xsd_override =
               (Inr valid,
                [ParseFile xml_path, PathExists xsd_path, ParseFile xsd_path]
                @ snd (validate_with_schema env xml_tree xsd_schema xml_path))"
      by (simp add: validate_xml_unfold b validate_xml_local_unfold validate_with_schema_unfold
            stdout_ok_def)
  qed
qed

text \<open>
  In the example environment \<^verbatim>\<open>docs/a.xml\<close> names \<^verbatim>\<open>a.xsd\<close>, found beside it, and
  \<^verbatim>\<open>docs/m.xml\<close> names a schema that does not exist.
\<close>

theorem local_schema_location_witness:
  "\<not> truthy None
   \<and> etree_parse ex_env ''docs/a.xml'' = Inr (doc_with [(loc_key, ''a.xsd'')] ''name'')
   \<and> attrib_get (doc_with [(loc_key, ''a.xsd'')] ''name'')
        (''{'' @ xsi_ns @ ''}noNamespaceSchemaLocation'') = Some ''a.xsd''
   \<and> ''a.xsd'' \<noteq> [] \<and> \<not> startswith ''a.xsd'' ''http://'' \<and> \<not> startswith ''a.xsd'' ''https://''
   \<and> ''docs/a.xsd'' = os_path_join (os_path_dirname ''docs/a.xml'') ''a.xsd''
   \<and> os_path_exists ex_env ''docs/a.xsd'' \<and> etree_parse ex_env ''docs/a.xsd'' = Inr xsd_a
   \<and> etree_XMLSchema ex_env xsd_a = Inr (XMLSchema xsd_a)
   \<and> XMLSchema_validate ex_env (XMLSchema xsd_a) (doc_with [(loc_key, ''a.xsd'')] ''name'')
        = Inr (True, [])
   \<and> stdout_ok ex_env
   \<and> validate_xml ex_env ''docs/a.xml'' None =
        (Inr True,
         [ParseFile ''docs/a.xml'', PathExists ''docs/a.xsd'', ParseFile ''docs/a.xsd'',
          Print (Text (COLOR_OK @ ''[OK] '' @ ''docs/a.xml'' @ '' is valid.'' @ COLOR_RESET))])
   \<and> etree_parse ex_env ''docs/m.xml'' = Inr (doc_with [(loc_key, ''gone.xsd'')] ''name'')
   \<and> \<not> os_path_exists ex_env ''docs/gone.xsd''
   \<and> validate_xml ex_env ''docs/m.xml'' None =
        (Inr False,
         [ParseFile ''docs/m.xml'', PathExists ''docs/gone.xsd'',
          Print (Text (COLOR_ERROR @ ''[ERROR] XSD file '' @ [CHR 0x27] @ ''docs/gone.xsd''
                       @ [CHR 0x27] @ '' not found.'' @ COLOR_RESET))])"
proof -
  have w: "stdout_write ex_env p = Inr ()" for p
    by (simp add: ex_env_def)
  then have ok: "stdout_ok ex_env" by (simp add: stdout_ok_def)
  have h1: "\<not> truthy None" by simp
  have h2: "etree_parse ex_env ''docs/a.xml'' = Inr (doc_with [(loc_key, ''a.xsd'')] ''name'')"
    by (simp add: ex_env_def ex_parse_def)
  have h3: "attrib_get (doc_with [(loc_key, ''a.xsd'')] ''name'')
        (''{'' @ xsi_ns @ ''}noNamespaceSchemaLocation'') = Some ''a.xsd''"
    by (simp add: attrib_get_def doc_with_def loc_key_def)
  have h4: "''a.xsd'' \<noteq> []" by simp
  have h5: "\<not> startswith ''a.xsd'' ''http://''" by (simp add: startswith_def)
  have h6: "\<not> startswith ''a.xsd'' ''https://''" by (simp add: startswith_def)
  have h7: "''docs/a.xsd'' = os_path_join (os_path_dirname ''docs/a.xml'') ''a.xsd''"
    by (simp add: os_path_join_def os_path_dirname_def startswith_def endswith_def)
  have h8: "os_path_exists ex_env ''docs/a.xsd'' \<and> etree_parse ex_env ''docs/a.xsd'' = Inr xsd_a
     \<and> etree_XMLSchema ex_env xsd_a = Inr (XMLSchema xsd_a)
     \<and> XMLSchema_validate ex_env (XMLSchema xsd_a) (doc_with [(loc_key, ''a.xsd'')] ''name'')
        = Inr (True, [])"
    by (simp add: ex_defs)
  have v: "snd (validate_with_schema ex_env (doc_with [(loc_key, ''a.xsd'')] ''name'')
                 (XMLSchema xsd_a) ''docs/a.xml'') =
           [Print (Text (COLOR_OK @ ''[OK] '' @ ''docs/a.xml'' @ '' is valid.'' @ COLOR_RESET))]"
    by (simp add: validate_with_schema_unfold ex_defs)
  from local_schema_location[OF h1 h2 h3 h4 h5 h6 h7] h8 ok
  have "validate_xml ex_env ''docs/a.xml'' None =
        (Inr True,
         [ParseFile ''docs/a.xml'', PathExists ''docs/a.xsd'', ParseFile ''docs/a.xsd'']
         @ snd (validate_with_schema ex_env (doc_with [(loc_key, ''a.xsd'')] ''name'')
                 (XMLSchema xsd_a) ''docs/a.xml''))"
    by blast
  then have r1: "validate_xml ex_env ''docs/a.xml'' None =
        (Inr True,
         [ParseFile ''docs/a.xml'', PathExists ''docs/a.xsd'', ParseFile ''docs/a.xsd'',
          Print (Text (COLOR_OK @ ''[OK] '' @ ''docs/a.xml'' @ '' is valid.'' @ COLOR_RESET))])"
    by (simp add: v)
  have g2: "etree_parse ex_env ''docs/m.xml'' = Inr (doc_with [(loc_key, ''gone.xsd'')] ''name'')"
    by (simp add: ex_env_def ex_parse_def)
  have g3: "attrib_get (doc_with [(loc_key, ''gone.xsd'')] ''name'')
        (''{'' @ xsi_ns @ ''}noNamespaceSchemaLocation'') = Some ''gone.xsd''"
    by (simp add: attrib_get_def doc_with_def loc_key_def)
  have g4: "''gone.xsd'' \<noteq> []" by simp
  have g5: "\<not> startswith ''gone.xsd'' ''http://''" by (simp add: startswith_def)
  have g6: "\<not> startswith ''gone.xsd'' ''https://''" by (simp add: startswith_def)
  have g7: "''docs/gone.xsd'' = os_path_join (os_path_dirname ''docs/m.xml'') ''gone.xsd''"
    by (simp add: os_path_join_def os_path_dirname_def startswith_def endswith_def)
  have g8: "\<not> os_path_exists ex_env ''docs/gone.xsd''"
    by (simp add: ex_env_def)
  from local_schema_location[OF h1 g2 g3 g4 g5 g6 g7] g8 w
  have r2: "validate_xml ex_env ''docs/m.xml'' None =
        (Inr False,
         [ParseFile ''docs/m.xml'', PathExists ''docs/gone.xsd'',
          Print (Text (COLOR_ERROR @ ''[ERROR] XSD file '' @ [CHR 0x27] @ ''docs/gone.xsd''
                       @ [CHR 0x27] @ '' not found.'' @ COLOR_RESET))])"
    by blast
  from h1 h2 h3 h4 h5 h6 h7 h8 ok r1 g2 g8 r2 show ?thesis by blast
qed

subsection \<open>The directory walker\<close>




subsection \<open>A remote schema location\<close>

lemma fetch_xsd_trace:
  "\<exists>tr. snd (fetch_xsd env u) = HttpGet u 10 # tr \<and> filter is_file_access tr = []"
  by (simp add: fetch_xsd_unfold fetch_xsd_handler_def io_defs
        split: sum.splits option.splits)

lemma validate_with_schema_no_file_access:
  "filter is_file_access (snd (validate_with_schema env t s p)) = []"
  by (simp add: validate_with_schema_unfold split: sum.splits prod.splits)

lemma startswith_nonempty: "startswith loc (c # cs) \<Longrightarrow> loc \<noteq> []"
  by (auto simp add: startswith_def)

lemma body_remote_eq:
  assumes "etree_parse env p = Inr t" and "\<not> truthy ov"
    and "attrib_get t (''{'' @ xsi_ns @ ''}noNamespaceSchemaLocation'') = Some loc"
    and "startswith loc ''http://'' \<or> startswith loc ''https://''"
  shows "validate_xml_body env p ov =
           io_bind (call (ParseFile p) (Inr t)) (\<lambda>xml_tree.
             io_bind (fetch_xsd env loc) (\<lambda>xsd_schema.
               case xsd_schema of
                 None \<Rightarrow> io_return False
               | Some s \<Rightarrow> validate_with_schema env xml_tree s p))"
proof -
  have "loc \<noteq> []" using assms(4) startswith_nonempty by blast
  with assms show ?thesis
    by (simp add: validate_xml_body_def io_bind_def call_def)
qed

text \<open>
  Claim C7. For every document whose schema location starts with \<^verbatim>\<open>http://\<close> or
  \<^verbatim>\<open>https://\<close>, when no override is in force, \<^verbatim>\<open>validate_xml\<close> hands the location to
  \<^verbatim>\<open>fetch_xsd\<close>: the GET of that URL is the first thing it does after parsing the
  document, and the only file the run touches is the XML document itself. When the fetch
  does not return a schema the file never passes: \<^verbatim>\<open>validate_xml\<close> does not return
  \<open>True\<close>, and returns \<open>False\<close> when \<^verbatim>\<open>fetch_xsd\<close> returns \<open>None\<close> or the standard
  output takes every line. In particular, when the GET raises a \<^verbatim>\<open>RequestException\<close> (a
  timeout, a connection error) or answers with a status from 400 to 599 (a 404), whatever
  the body, the run is the parse, the GET and the one line \<^verbatim>\<open>Failed to fetch XSD\<close> naming
  the URL and the cause, and the result is \<open>False\<close>.
\<close>

theorem remote_schema_location:
  assumes "\<not> truthy xsd_override"
    and "etree_parse env xml_path = Inr xml_tree"
    and "attrib_get xml_tree (''{'' @ xsi_ns @ ''}noNamespaceSchemaLocation'') = Some xsd_location"
    and "startswith xsd_location ''http://'' \<or> startswith xsd_location ''https://''"
  shows "validate_xml_body env xml_path xsd_override =
           io_bind (call (ParseFile xml_path) (Inr xml_tree)) (\<lambda>xml_tree.
             io_bind (fetch_xsd env xsd_location) (\<lambda>xsd_schema.
               case xsd_schema of
                 None \<Rightarrow> io_return False
               | Some s \<Rightarrow> validate_with_schema env xml_tree s xml_path))
       \<and> take 2 (snd (validate_xml env xml_path xsd_override))
           = [ParseFile xml_path, HttpGet xsd_location 10]
       \<and> filter is_file_access (snd (validate_xml env xml_path xsd_override))
           = [ParseFile xml_path]
       \<and> ((\<forall>s. fst (fetch_xsd env xsd_location) \<noteq> Inr (Some s)) \<longrightarrow>
            fst (validate_xml env xml_path xsd_override) \<noteq> Inr True)
       \<and> (fst (fetch_xsd env xsd_location) = Inr None \<longrightarrow>
            fst (validate_xml env xml_path xsd_override) = Inr False)
       \<and> (stdout_ok env \<and> (\<forall>s. fst (fetch_xsd env xsd_location) \<noteq> Inr (Some s)) \<longrightarrow>
            fst (validate_xml env xml_path xsd_override) = Inr False)
       \<and> (\<forall>e. requests_get env xsd_location 10 = Inl e \<and> isinstance_RequestException e
             \<and> stdout_write env
                  (Text (COLOR_ERROR @ ''[ERROR] Failed to fetch XSD from '' @ xsd_location
                         @ '': '' @ str_exn e @ COLOR_RESET)) = Inr () \<longrightarrow>
             validate_xml env xml_path xsd_override =
               (Inr False,
                [ParseFile xml_path, HttpGet xsd_location 10,
                 Print (Text (COLOR_ERROR @ ''[ERROR] Failed to fetch XSD from ''
                              @ xsd_location @ '': '' @ str_exn e @ COLOR_RESET))]))
       \<and> (\<forall>r. requests_get env xsd_location 10 = Inr r
             \<and> 400 \<le> status_code r \<and> status_code r < 600
             \<and> stdout_write env
                  (Text (COLOR_ERROR @ ''[ERROR] Failed to fetch XSD from '' @ xsd_location
                         @ '': '' @ http_error_msg r @ COLOR_RESET)) = Inr () \<longrightarrow>
             validate_xml env xml_path xsd_override =
               (Inr False,
                [ParseFile xml_path, HttpGet xsd_location 10,
                 Print (Text (COLOR_ERROR @ ''[ERROR] Failed to fetch XSD from ''
                              @ xsd_location @ '': '' @ http_error_msg r @ COLOR_RESET))]))"
proof -
  have ne: "xsd_location \<noteq> []" using assms(4) startswith_nonempty by blast
  note b = body_remote[OF assms(2) assms(1) assms(3) ne assms(4)]
  obtain r tr where f: "fetch_xsd env xsd_location = (r, tr)"
    by (cases "fetch_xsd env xsd_location")
  from fetch_xsd_trace[of env xsd_location] f obtain tr' where
    tr: "tr = HttpGet xsd_location 10 # tr'" and nf: "filter is_file_access tr' = []"
    by auto
  have 1: "take 2 (snd (validate_xml env xml_path xsd_override))
           = [ParseFile xml_path, HttpGet xsd_location 10]"
    using f tr by (simp add: validate_xml_unfold b split: sum.splits option.splits)
  have 2: "filter is_file_access (snd (validate_xml env xml_path xsd_override))
           = [ParseFile xml_path]"
    using f tr nf validate_with_schema_no_file_access[of env xml_tree _ xml_path]
    by (simp add: validate_xml_unfold b split: sum.splits option.splits prod.splits)
  have 3: "(\<forall>s. fst (fetch_xsd env xsd_location) \<noteq> Inr (Some s)) \<longrightarrow>
            fst (validate_xml env xml_path xsd_override) \<noteq> Inr True"
    using f by (simp add: validate_xml_unfold b split: sum.splits option.splits)
  have 4: "fst (fetch_xsd env xsd_location) = Inr None \<longrightarrow>
            fst (validate_xml env xml_path xsd_override) = Inr False"
    using f by (simp add: validate_xml_unfold b split: sum.splits option.splits)
  have 5: "stdout_ok env \<and> (\<forall>s. fst (fetch_xsd env xsd_location) \<noteq> Inr (Some s)) \<longrightarrow>
            fst (validate_xml env xml_path xsd_override) = Inr False"
    using f by (simp add: validate_xml_unfold b stdout_ok_def split: sum.splits option.splits)
  have 6: "\<forall>e. requests_get env xsd_location 10 = Inl e \<and> isinstance_RequestException e
             \<and> stdout_write env
                  (Text (COLOR_ERROR @ ''[ERROR] Failed to fetch XSD from '' @ xsd_location
                         @ '': '' @ str_exn e @ COLOR_RESET)) = Inr () \<longrightarrow>
             validate_xml env xml_path xsd_override =
               (Inr False,
                [ParseFile xml_path, HttpGet xsd_location 10,
                 Print (Text (COLOR_ERROR @ ''[ERROR] Failed to fetch XSD from ''
                              @ xsd_location @ '': '' @ str_exn e @ COLOR_RESET))])"
    by (simp add: validate_xml_unfold b fetch_xsd_unfold fetch_xsd_handler_def io_defs)
  have 7: "\<forall>r. requests_get env xsd_location 10 = Inr r
             \<and> 400 \<le> status_code r \<and> status_code r < 600
             \<and> stdout_write env
                  (Text (COLOR_ERROR @ ''[ERROR] Failed to fetch XSD from '' @ xsd_location
                         @ '': '' @ http_error_msg r @ COLOR_RESET)) = Inr () \<longrightarrow>
             validate_xml env xml_path xsd_override =
               (Inr False,
                [ParseFile xml_path, HttpGet xsd_location 10,
                 Print (Text (COLOR_ERROR @ ''[ERROR] Failed to fetch XSD from ''
                              @ xsd_location @ '': '' @ http_error_msg r @ COLOR_RESET))])"
    by (simp add: validate_xml_unfold b fetch_xsd_unfold fetch_xsd_handler_def
          raise_for_status_def isinstance_RequestException_def io_defs)
  from body_remote_eq[OF assms(2) assms(1) assms(3) assms(4)] 1 2 3 4 5 6 7
  show ?thesis by blast
qed

text \<open>
  The document \<^verbatim>\<open>docs/r.xml\<close>, which is valid for the schema \<^verbatim>\<open>a.xsd\<close>, names a URL
  that answers 404 with that very schema as its body; the document \<^verbatim>\<open>docs/t.xml\<close> names
  a URL that times out. Both fail.
\<close>

theorem remote_schema_location_witness:
  "\<not> truthy None
   \<and> etree_parse ex_env ''docs/r.xml'' = Inr (doc_with [(loc_key, ''http://h/gone.xsd'')] ''name'')
   \<and> attrib_get (doc_with [(loc_key, ''http://h/gone.xsd'')] ''name'')
        (''{'' @ xsi_ns @ ''}noNamespaceSchemaLocation'') = Some ''http://h/gone.xsd''
   \<and> startswith ''http://h/gone.xsd'' ''http://''
   \<and> requests_get ex_env ''http://h/gone.xsd'' 10 =
       Inr \<lparr>status_code = 404, reason = ''Not Found'', url = ''http://h/gone.xsd'',
            content = ''<schema/>''\<rparr>
   \<and> etree_XML ex_env ''<schema/>'' = Inr xsd_a
   \<and> XMLSchema_validate ex_env (XMLSchema xsd_a)
        (doc_with [(loc_key, ''http://h/gone.xsd'')] ''name'') = Inr (True, [])
   \<and> validate_xml ex_env ''docs/r.xml'' None =
       (Inr False,
        [ParseFile ''docs/r.xml'', HttpGet ''http://h/gone.xsd'' 10,
         Print (Text (COLOR_ERROR @ ''[ERROR] Failed to fetch XSD from '' @ ''http://h/gone.xsd''
                      @ '': '' @ ''404 Client Error: Not Found for url: http://h/gone.xsd''
                      @ COLOR_RESET))])
   \<and> filter is_file_access (snd (validate_xml ex_env ''docs/r.xml'' None))
       = [ParseFile ''docs/r.xml'']
   \<and> etree_parse ex_env ''docs/t.xml'' = Inr (doc_with [(loc_key, ''http://h/slow.xsd'')] ''name'')
   \<and> requests_get ex_env ''http://h/slow.xsd'' 10 = Inl (Exn Timeout ''Read timed out.'')
   \<and> validate_xml ex_env ''docs/t.xml'' None =
       (Inr False,
        [ParseFile ''docs/t.xml'', HttpGet ''http://h/slow.xsd'' 10,
         Print (Text (COLOR_ERROR @ ''[ERROR] Failed to fetch XSD from '' @ ''http://h/slow.xsd''
                      @ '': '' @ ''Read timed out.'' @ COLOR_RESET))])"
proof -
  have w: "stdout_write ex_env p = Inr ()" for p
    by (simp add: ex_env_def)
  have h1: "\<not> truthy None" by simp
  have h2: "etree_parse ex_env ''docs/r.xml''
              = Inr (doc_with [(loc_key, ''http://h/gone.xsd'')] ''name'')"
    by (simp add: ex_env_def ex_parse_def)
  have h3: "attrib_get (doc_with [(loc_key, ''http://h/gone.xsd'')] ''name'')
        (''{'' @ xsi_ns @ ''}noNamespaceSchemaLocation'') = Some ''http://h/gone.xsd''"
    by (simp add: attrib_get_def doc_with_def loc_key_def)
  have h4: "startswith ''http://h/gone.xsd'' ''http://''" by (simp add: startswith_def)
  then have h4': "startswith ''http://h/gone.xsd'' ''http://''
             \<or> startswith ''http://h/gone.xsd'' ''https://''"
    by simp
  have g: "requests_get ex_env ''http://h/gone.xsd'' 10 =
       Inr \<lparr>status_code = 404, reason = ''Not Found'', url = ''http://h/gone.xsd'',
            content = ''<schema/>''\<rparr>"
    by (simp add: ex_env_def ex_get_def)
  have gs: "400 \<le> status_code \<lparr>status_code = 404, reason = ''Not Found'',
                  url = ''http://h/gone.xsd'', content = ''<schema/>''\<rparr>
            \<and> status_code \<lparr>status_code = 404, reason = ''Not Found'',
                  url = ''http://h/gone.xsd'', content = ''<schema/>''\<rparr> < 600"
    by simp
  have cm: "http_error_msg \<lparr>status_code = 404, reason = ''Not Found'',
                  url = ''http://h/gone.xsd'', content = ''<schema/>''\<rparr>
            = ''404 Client Error: Not Found for url: http://h/gone.xsd''"
    by (simp add: http_error_msg_def string_of_nat.simps digit_char_def)
  have x: "etree_XML ex_env ''<schema/>'' = Inr xsd_a
           \<and> XMLSchema_validate ex_env (XMLSchema xsd_a)
                (doc_with [(loc_key, ''http://h/gone.xsd'')] ''name'') = Inr (True, [])"
    by (simp add: ex_defs)
  note T = remote_schema_location[OF h1 h2 h3 h4']
  from T g gs w
  have "validate_xml ex_env ''docs/r.xml'' None =
       (Inr False,
        [ParseFile ''docs/r.xml'', HttpGet ''http://h/gone.xsd'' 10,
         Print (Text (COLOR_ERROR @ ''[ERROR] Failed to fetch XSD from '' @ ''http://h/gone.xsd''
                      @ '': '' @ http_error_msg \<lparr>status_code = 404, reason = ''Not Found'',
                  url = ''http://h/gone.xsd'', content = ''<schema/>''\<rparr> @ COLOR_RESET))])"
    by blast
  then have r1: "validate_xml ex_env ''docs/r.xml'' None =
       (Inr False,
        [ParseFile ''docs/r.xml'', HttpGet ''http://h/gone.xsd'' 10,
         Print (Text (COLOR_ERROR @ ''[ERROR] Failed to fetch XSD from '' @ ''http://h/gone.xsd''
                      @ '': '' @ ''404 Client Error: Not Found for url: http://h/gone.xsd''
                      @ COLOR_RESET))])"
    by (simp add: cm)
  from T have r2: "filter is_file_access (snd (validate_xml ex_env ''docs/r.xml'' None))
       = [ParseFile ''docs/r.xml'']"
    by blast
  have t2: "etree_parse ex_env ''docs/t.xml''
              = Inr (doc_with [(loc_key, ''http://h/slow.xsd'')] ''name'')"
    by (simp add: ex_env_def ex_parse_def)
  have t3: "attrib_get (doc_with [(loc_key, ''http://h/slow.xsd'')] ''name'')
        (''{'' @ xsi_ns @ ''}noNamespaceSchemaLocation'') = Some ''http://h/slow.xsd''"
    by (simp add: attrib_get_def doc_with_def loc_key_def)
  have t4: "startswith ''http://h/slow.xsd'' ''http://''
             \<or> startswith ''http://h/slow.xsd'' ''https://''"
    by (simp add: startswith_def)
  have tg: "requests_get ex_env ''http://h/slow.xsd'' 10 = Inl (Exn Timeout ''Read timed out.'')"
    by (simp add: ex_env_def ex_get_def)
  have ti: "isinstance_RequestException (Exn Timeout ''Read timed out.'')"
    by (simp add: isinstance_RequestException_def)
  from remote_schema_location[OF h1 t2 t3 t4] tg ti w
  have "validate_xml ex_env ''docs/t.xml'' None =
       (Inr False,
        [ParseFile ''docs/t.xml'', HttpGet ''http://h/slow.xsd'' 10,
         Print (Text (COLOR_ERROR @ ''[ERROR] Failed to fetch XSD from '' @ ''http://h/slow.xsd''
                      @ '': '' @ str_exn (Exn Timeout ''Read timed out.'') @ COLOR_RESET))])"
    by blast
  then have r3: "validate_xml ex_env ''docs/t.xml'' None =
       (Inr False,
        [ParseFile ''docs/t.xml'', HttpGet ''http://h/slow.xsd'' 10,
         Print (Text (COLOR_ERROR @ ''[ERROR] Failed to fetch XSD from '' @ ''http://h/slow.xsd''
                      @ '': '' @ ''Read timed out.'' @ COLOR_RESET))])"
    by simp
  from h1 h2 h3 h4 g x r1 r2 t2 tg r3 show ?thesis by blast
qed

subsection \<open>Exceptions in \<^verbatim>\<open>validate_xml\<close>\<close>

text \<open>
  A file whose name is not valid UTF-8, on a strict UTF-8 standard output: parsing raises,
  the handler's \<^verbatim>\<open>print\<close> of a line holding that name raises \<^verbatim>\<open>UnicodeEncodeError\<close>, and
  this exception leaves \<^verbatim>\<open>validate_xml\<close> with nothing printed.
\<close>

theorem validate_xml_raises_counterexample:
  "etree_parse ex_env_strict (''raw/'' @ CHR 0xFF # ''.xml'')
     = Inl (Exn OSError ''Error reading file'')
   \<and> stdout_write ex_env_strict
       (Text (COLOR_ERROR @ ''[ERROR] Failed to validate '' @ (''raw/'' @ CHR 0xFF # ''.xml'')
              @ '': '' @ ''Error reading file'' @ COLOR_RESET))
       = Inl (Exn UnicodeEncodeError ''surrogates not allowed'')
   \<and> validate_xml ex_env_strict (''raw/'' @ CHR 0xFF # ''.xml'') None
       = (Inl (Exn UnicodeEncodeError ''surrogates not allowed''),
          [ParseFile (''raw/'' @ CHR 0xFF # ''.xml'')])"
  by (simp add: validate_xml_unfold body_parse_fail ex_env_strict_def strict_write_def
        ex_env_def ex_parse_def)

text \<open>
  Claim C8, as the script has it. When parsing the XML document raises, and more generally
  when anything in the \<^verbatim>\<open>try\<close> block raises, \<^verbatim>\<open>validate_xml\<close> catches the exception
  and prints, after whatever the block had done, one error line that names the file and the
  exception; when the standard output takes that line it returns \<open>False\<close>. An exception
  leaves \<^verbatim>\<open>validate_xml\<close> only when the \<^verbatim>\<open>print\<close> of that error line raises, so that
  \<^verbatim>\<open>validate_xml\<close> always returns a boolean when the standard output takes every text.
\<close>

theorem validate_xml_catches:
  "(\<forall>e tr. validate_xml_body env xml_path xsd_override = (Inl e, tr)
        \<and> stdout_write env
             (Text (COLOR_ERROR @ ''[ERROR] Failed to validate '' @ xml_path @ '': ''
                    @ str_exn e @ COLOR_RESET)) = Inr () \<longrightarrow>
        validate_xml env xml_path xsd_override =
          (Inr False,
           tr @ [Print (Text (COLOR_ERROR @ ''[ERROR] Failed to validate '' @ xml_path @ '': ''
                              @ str_exn e @ COLOR_RESET))]))
   \<and> (\<forall>e. etree_parse env xml_path = Inl e
        \<and> stdout_write env
             (Text (COLOR_ERROR @ ''[ERROR] Failed to validate '' @ xml_path @ '': ''
                    @ str_exn e @ COLOR_RESET)) = Inr () \<longrightarrow>
        validate_xml env xml_path xsd_override =
          (Inr False,
           [ParseFile xml_path,
            Print (Text (COLOR_ERROR @ ''[ERROR] Failed to validate '' @ xml_path @ '': ''
                         @ str_exn e @ COLOR_RESET))]))
   \<and> (\<forall>e'. fst (validate_xml env xml_path xsd_override) = Inl e' \<longrightarrow>
        (\<exists>e tr. validate_xml_body env xml_path xsd_override = (Inl e, tr)
           \<and> stdout_write env
                (Text (COLOR_ERROR @ ''[ERROR] Failed to validate '' @ xml_path @ '': ''
                       @ str_exn e @ COLOR_RESET)) = Inl e'))
   \<and> (stdout_ok env \<longrightarrow> (\<exists>b. fst (validate_xml env xml_path xsd_override) = Inr b))"
proof (intro conjI allI impI)
  fix e tr
  assume "validate_xml_body env xml_path xsd_override = (Inl e, tr)
        \<and> stdout_write env
             (Text (COLOR_ERROR @ ''[ERROR] Failed to validate '' @ xml_path @ '': ''
                    @ str_exn e @ COLOR_RESET)) = Inr ()"
  then show "validate_xml env xml_path xsd_override =
          (Inr False,
           tr @ [Print (Text (COLOR_ERROR @ ''[ERROR] Failed to validate '' @ xml_path @ '': ''
                              @ str_exn e @ COLOR_RESET))])"
    by (simp add: validate_xml_unfold)
next
  fix e
  assume "etree_parse env xml_path = Inl e
        \<and> stdout_write env
             (Text (COLOR_ERROR @ ''[ERROR] Failed to validate '' @ xml_path @ '': ''
                    @ str_exn e @ COLOR_RESET)) = Inr ()"
  then show "validate_xml env xml_path xsd_override =
          (Inr False,
           [ParseFile xml_path,
            Print (Text (COLOR_ERROR @ ''[ERROR] Failed to validate '' @ xml_path @ '': ''
                         @ str_exn e @ COLOR_RESET))])"
    by (simp add: validate_xml_unfold body_parse_fail)
next
  fix e'
  assume r: "fst (validate_xml env xml_path xsd_override) = Inl e'"
  obtain b tr where body: "validate_xml_body env xml_path xsd_override = (b, tr)"
    by (cases "validate_xml_body env xml_path xsd_override")
  show "\<exists>e tr. validate_xml_body env xml_path xsd_override = (Inl e, tr)
           \<and> stdout_write env
                (Text (COLOR_ERROR @ ''[ERROR] Failed to validate '' @ xml_path @ '': ''
                       @ str_exn e @ COLOR_RESET)) = Inl e'"
  proof (cases b)
    case (Inr v)
    with r body show ?thesis by (simp add: validate_xml_unfold)
  next
    case (Inl e)
    with r body have "stdout_write env
                (Text (COLOR_ERROR @ ''[ERROR] Failed to validate '' @ xml_path @ '': ''
                       @ str_exn e @ COLOR_RESET)) = Inl e'"
      by (simp add: validate_xml_unfold split: sum.splits)
    with Inl body show ?thesis by blast
  qed
next
  assume "stdout_ok env"
  then show "\<exists>b. fst (validate_xml env xml_path xsd_override) = Inr b"
    by (rule validate_xml_returns)
qed

text \<open>
  A malformed document, and a remote schema whose compilation raises inside
  \<^verbatim>\<open>fetch_xsd\<close>.
\<close>

theorem validate_xml_catches_witness:
  "etree_parse ex_env ''docs/c.xml'' = Inl (Exn XMLSyntaxError ''Premature end of data'')
   \<and> stdout_ok ex_env
   \<and> validate_xml ex_env ''docs/c.xml'' None =
       (Inr False,
        [ParseFile ''docs/c.xml'',
         Print (Text (COLOR_ERROR @ ''[ERROR] Failed to validate '' @ ''docs/c.xml'' @ '': ''
                      @ ''Premature end of data'' @ COLOR_RESET))])
   \<and> validate_xml_body ex_env ''docs/s.xml'' None =
       (Inl (Exn XMLSchemaParseError ''The XML document is not a schema document.''),
        [ParseFile ''docs/s.xml'', HttpGet ''https://h/foo.xml'' 10])
   \<and> validate_xml ex_env ''docs/s.xml'' None =
       (Inr False,
        [ParseFile ''docs/s.xml'', HttpGet ''https://h/foo.xml'' 10,
         Print (Text (COLOR_ERROR @ ''[ERROR] Failed to validate '' @ ''docs/s.xml'' @ '': ''
                      @ ''The XML document is not a schema document.'' @ COLOR_RESET))])"
proof -
  have w: "stdout_write ex_env p = Inr ()" for p
    by (simp add: ex_env_def)
  then have ok: "stdout_ok ex_env" by (simp add: stdout_ok_def)
  have p: "etree_parse ex_env ''docs/c.xml'' = Inl (Exn XMLSyntaxError ''Premature end of data'')"
    by (simp add: ex_env_def ex_parse_def)
  from p w validate_xml_catches[of ex_env "''docs/c.xml''" None]
  have r1: "validate_xml ex_env ''docs/c.xml'' None =
       (Inr False,
        [ParseFile ''docs/c.xml'',
         Print (Text (COLOR_ERROR @ ''[ERROR] Failed to validate '' @ ''docs/c.xml'' @ '': ''
                      @ str_exn (Exn XMLSyntaxError ''Premature end of data'') @ COLOR_RESET))])"
    by blast
  have b: "validate_xml_body ex_env ''docs/s.xml'' None =
       (Inl (Exn XMLSchemaParseError ''The XML document is not a schema document.''),
        [ParseFile ''docs/s.xml'', HttpGet ''https://h/foo.xml'' 10])"
    by (simp add: validate_xml_body_def fetch_xsd_unfold fetch_xsd_handler_def
          raise_for_status_def isinstance_RequestException_def isinstance_XMLSyntaxError_def
          attrib_get_def startswith_def io_defs ex_defs)
  from b w validate_xml_catches[of ex_env "''docs/s.xml''" None]
  have r2: "validate_xml ex_env ''docs/s.xml'' None =
       (Inr False,
        [ParseFile ''docs/s.xml'', HttpGet ''https://h/foo.xml'' 10]
        @ [Print (Text (COLOR_ERROR @ ''[ERROR] Failed to validate '' @ ''docs/s.xml'' @ '': ''
                  @ str_exn (Exn XMLSchemaParseError ''The XML document is not a schema document.'')
                  @ COLOR_RESET))])"
    by blast
  from p ok r1 b r2 show ?thesis by simp
qed

subsection \<open>The exit status\<close>




subsection \<open>An absolute schema location\<close>

text \<open>
  Claim C10. For every schema location that is an absolute path (it starts with the
  separator), when no override is in force, joining it to the directory of the XML file
  gives the location itself, and the document is validated against the file at exactly that
  path, wherever the XML file is.
\<close>

theorem absolute_schema_location:
  assumes "\<not> truthy xsd_override"
    and "etree_parse env xml_path = Inr xml_tree"
    and "attrib_get xml_tree (''{'' @ xsi_ns @ ''}noNamespaceSchemaLocation'') = Some xsd_location"
    and "startswith xsd_location ''/''"
  shows "os_path_join (os_path_dirname xml_path) xsd_location = xsd_location
       \<and> validate_xml_body env xml_path xsd_override =
           (fst (validate_xml_local env xml_tree xsd_location xml_path),
            ParseFile xml_path # snd (validate_xml_local env xml_tree xsd_location xml_path))"
proof -
  have j: "os_path_join (os_path_dirname xml_path) xsd_location = xsd_location"
    using assms(4) by (simp add: os_path_join_def)
  from absolute_not_url[OF assms(4)] body_local[OF assms(2) assms(1) assms(3)] j
  show ?thesis by simp
qed

text \<open>
  The document \<^verbatim>\<open>docs/abs.xml\<close> names \<^verbatim>\<open>/xsd/a.xsd\<close>.
\<close>

theorem absolute_schema_location_witness:
  "\<not> truthy None
   \<and> etree_parse ex_env ''docs/abs.xml'' = Inr (doc_with [(loc_key, ''/xsd/a.xsd'')] ''name'')
   \<and> attrib_get (doc_with [(loc_key, ''/xsd/a.xsd'')] ''name'')
        (''{'' @ xsi_ns @ ''}noNamespaceSchemaLocation'') = Some ''/xsd/a.xsd''
   \<and> startswith ''/xsd/a.xsd'' ''/''
   \<and> os_path_join (os_path_dirname ''docs/abs.xml'') ''/xsd/a.xsd'' = ''/xsd/a.xsd''
   \<and> validate_xml_body ex_env ''docs/abs.xml'' None =
        (Inr True,
         [ParseFile ''docs/abs.xml'', PathExists ''/xsd/a.xsd'', ParseFile ''/xsd/a.xsd'',
          Print (Text (COLOR_OK @ ''[OK] '' @ ''docs/abs.xml'' @ '' is valid.'' @ COLOR_RESET))])"
proof -
  have h1: "\<not> truthy None" by simp
  have h2: "etree_parse ex_env ''docs/abs.xml'' = Inr (doc_with [(loc_key, ''/xsd/a.xsd'')] ''name'')"
    by (simp add: ex_env_def ex_parse_def)
  have h3: "attrib_get (doc_with [(loc_key, ''/xsd/a.xsd'')] ''name'')
        (''{'' @ xsi_ns @ ''}noNamespaceSchemaLocation'') = Some ''/xsd/a.xsd''"
    by (simp add: attrib_get_def doc_with_def loc_key_def)
  have h4: "startswith ''/xsd/a.xsd'' ''/''" by (simp add: startswith_def)
  have l: "validate_xml_local ex_env (doc_with [(loc_key, ''/xsd/a.xsd'')] ''name'')
             ''/xsd/a.xsd'' ''docs/abs.xml'' =
           (Inr True,
            [PathExists ''/xsd/a.xsd'', ParseFile ''/xsd/a.xsd'',
             Print (Text (COLOR_OK @ ''[OK] '' @ ''docs/abs.xml'' @ '' is valid.''
                          @ COLOR_RESET))])"
    by (simp add: validate_xml_local_unfold validate_with_schema_unfold ex_defs)
  from absolute_schema_location[OF h1 h2 h3 h4] l h1 h2 h3 h4 show ?thesis by simp
qed

end
